theory Spec2Isabelle
  imports Main
begin

section \<open>Python values used by \<^verbatim>\<open>main.py\<close>\<close>

text \<open>
  The exceptions the modelled functions can raise: \<^verbatim>\<open>IndexError\<close> (list indexing,
  \<^verbatim>\<open>area[0]\<close>, \<^verbatim>\<open>pop\<close> from an empty list), \<^verbatim>\<open>KeyError\<close> (a missing
  attribute) and \<^verbatim>\<open>ValueError\<close> (\<^verbatim>\<open>int\<close> of a string that is not a number).
  A function that can raise returns \<open>py_error + 'a\<close>, \<open>Inl\<close> being the exception.
\<close>

datatype py_error = IndexError | KeyError | ValueError

text \<open>
  An \<^verbatim>\<open>xml.etree.ElementTree.Element\<close>: its tag, its attribute dictionary (an
  association list read with \<open>map_of\<close>) and its child elements in document order.
  A loaded save (\<^verbatim>\<open>ET.parse(...)\<close>) is represented by its root element.
\<close>

datatype element = Element (tag: string) (attrib: "(string \<times> string) list") (children: "element list")

text \<open>
  The two dataclasses. Isabelle names cannot end in an underscore, so the field
  \<^verbatim>\<open>id_\<close> is written \<open>id'\<close> (and the parameter \<^verbatim>\<open>time_\<close> below \<open>time'\<close>).
\<close>

record AreaStats =
  name :: string
  completed :: bool
  time_played :: int
  deaths :: int

record SaveFile =
  id' :: int
  game_completed :: bool
  total_time :: int
  total_deaths :: int
  areas :: "AreaStats list"

subsection \<open>\<^verbatim>\<open>str(n)\<close> and \<^verbatim>\<open>f"{n:0wd}"\<close> for integers\<close>

definition digit_char :: "nat \<Rightarrow> char" where
  "digit_char d = ''0123456789'' ! d"

fun digits_of :: "nat \<Rightarrow> string" where
  "digits_of n = (if n < 10 then [digit_char n] else digits_of (n div 10) @ [digit_char (n mod 10)])"

declare digits_of.simps [simp del]

text \<open>\<^verbatim>\<open>f"{i}"\<close>: the decimal digits, after a minus sign for a negative number.\<close>

definition py_str :: "int \<Rightarrow> string" where
  "py_str i = (if i < 0 then CHR ''-'' # digits_of (nat (- i)) else digits_of (nat i))"

text \<open>
  \<^verbatim>\<open>f"{i:0wd}"\<close>: zero padding to a total width of \<open>w\<close>, the sign (if any) before
  the zeros and counted in the width.
\<close>

definition py_format_0d :: "nat \<Rightarrow> int \<Rightarrow> string" where
  "py_format_0d w i =
     (if i < 0
      then (let ds = digits_of (nat (- i)) in CHR ''-'' # replicate (w - 1 - length ds) CHR ''0'' @ ds)
      else (let ds = digits_of (nat i) in replicate (w - length ds) CHR ''0'' @ ds))"

section \<open>TimeCodec: \<^verbatim>\<open>parse_time\<close> and \<^verbatim>\<open>find_diff\<close>\<close>

text \<open>
  \<^verbatim>\<open>parse_time\<close> (lines 31-47). Python's \<^verbatim>\<open>//\<close> and \<^verbatim>\<open>divmod\<close> round towards
  minus infinity, as \<open>div\<close> and \<open>mod\<close> on \<open>int\<close> do. The list
  \<^verbatim>\<open>time_components\<close> is built by appending and joined at the end.
\<close>

definition parse_time :: "int \<Rightarrow> string" where
  "parse_time time' =
     (let ms = time' div 10000;
          hours = ms div 3600000; remainder = ms mod 3600000;
          mins = remainder div 60000; remainder = remainder mod 60000;
          secs = remainder div 1000; ms = remainder mod 1000;
          time_components = [];
          time_components =
            (if hours > 0 then (time_components @ [py_str hours @ '':'']) @ [py_format_0d 2 mins @ '':'']
             else if mins > 0 then time_components @ [py_str mins @ '':'']
             else time_components);
          time_components = time_components @
            [if hours > 0 \<or> mins > 0 then py_format_0d 2 secs @ ''.'' else py_str secs @ ''.''];
          time_components = time_components @ [py_format_0d 3 ms]
      in concat time_components)"

text \<open>
  \<^verbatim>\<open>find_diff\<close> (lines 136-139). \<^verbatim>\<open>'-' * a_is_faster\<close> repeats the sign
  \<^verbatim>\<open>True\<close> = 1 or \<^verbatim>\<open>False\<close> = 0 times.
\<close>

definition find_diff :: "int \<Rightarrow> int \<Rightarrow> string" where
  "find_diff time_a time_b =
     (let a_is_faster = time_a < time_b;
          diff = max time_a time_b - min time_a time_b
      in replicate (if a_is_faster then 1 else 0) CHR ''-'' @ parse_time diff)"

section \<open>SaveParser: \<^verbatim>\<open>parse_areas\<close>\<close>

subsection \<open>List indexing, \<^verbatim>\<open>pop\<close>, attribute lookup and \<^verbatim>\<open>int(str)\<close>\<close>

text \<open>
  \<^verbatim>\<open>xs[i]\<close> for a Python list and an \<^verbatim>\<open>int\<close>: a negative index counts from the
  end, and an index that is still out of range raises \<^verbatim>\<open>IndexError\<close>.
\<close>

definition getitem :: "'a list \<Rightarrow> int \<Rightarrow> py_error + 'a" where
  "getitem xs i =
     (let k = (if i < 0 then i + int (length xs) else i)
      in if k < 0 \<or> int (length xs) \<le> k then Inl IndexError else Inr (xs ! nat k))"

text \<open>\<^verbatim>\<open>xs.pop()\<close>: removes and returns the last item; \<^verbatim>\<open>IndexError\<close> on an empty list.\<close>

definition pop :: "'a list \<Rightarrow> py_error + ('a \<times> 'a list)" where
  "pop xs = (if xs = [] then Inl IndexError else Inr (last xs, butlast xs))"

text \<open>\<^verbatim>\<open>d[key]\<close> for the attribute dictionary: \<^verbatim>\<open>KeyError\<close> when the key is absent.\<close>

definition attrib_getitem :: "(string \<times> string) list \<Rightarrow> string \<Rightarrow> py_error + string" where
  "attrib_getitem d k = (case map_of d k of None \<Rightarrow> Inl KeyError | Some v \<Rightarrow> Inr v)"

text \<open>
  \<^verbatim>\<open>int(s)\<close> for a string of ASCII characters: surrounding whitespace is stripped, one
  sign is allowed, then decimal digits, where single underscores may stand between
  digits; anything else raises \<^verbatim>\<open>ValueError\<close>. (A \<open>char\<close> is a byte, so digits and
  spaces outside ASCII, which Python also accepts, are not part of this model, nor is
  the interpreter's configurable limit on the number of digits.)
\<close>

definition py_isspace :: "char \<Rightarrow> bool" where
  "py_isspace c = (c \<in> set [CHR 0x09, CHR 0x0A, CHR 0x0B, CHR 0x0C, CHR 0x0D,
                             CHR 0x1C, CHR 0x1D, CHR 0x1E, CHR 0x1F, CHR 0x20])"

definition strip :: "string \<Rightarrow> string" where
  "strip s = rev (dropWhile py_isspace (rev (dropWhile py_isspace s)))"

definition is_digit :: "char \<Rightarrow> bool" where
  "is_digit c = (c \<in> set ''0123456789'')"

definition digit_val :: "char \<Rightarrow> int" where
  "digit_val c = int (of_char c) - 48"

fun int_digits :: "bool \<Rightarrow> int \<Rightarrow> string \<Rightarrow> py_error + int" where
  "int_digits after_digit acc [] = (if after_digit then Inr acc else Inl ValueError)"
| "int_digits after_digit acc (c # cs) =
     (if is_digit c then int_digits True (10 * acc + digit_val c) cs
      else if c = CHR ''_'' \<and> after_digit then int_digits False acc cs
      else Inl ValueError)"

definition py_int :: "string \<Rightarrow> py_error + int" where
  "py_int s =
     (case strip s of
        [] \<Rightarrow> Inl ValueError
      | c # cs \<Rightarrow>
          if c = CHR ''-'' then (case int_digits False 0 cs of Inl e \<Rightarrow> Inl e | Inr v \<Rightarrow> Inr (- v))
          else if c = CHR ''+'' then int_digits False 0 cs
          else int_digits False 0 (c # cs))"

subsection \<open>The catalog and the local variables of \<^verbatim>\<open>parse_areas\<close>\<close>

text \<open>
  The list literal of lines 96-106, in the order it is written: 33 slots, \<open>None\<close> for
  a slot that is not scored. \<^verbatim>\<open>area_names\<close> starts as this list reversed.
\<close>

definition catalog :: "string option list" where
  "catalog =
     [Some ''Prologue'', None, None,
      Some ''1a'', Some ''1b'', Some ''1c'',
      Some ''2a'', Some ''2b'', Some ''2c'',
      Some ''3a'', Some ''3b'', Some ''3c'',
      Some ''4a'', Some ''4b'', Some ''4c'',
      Some ''5a'', Some ''5b'', Some ''5c'',
      Some ''6a'', Some ''6b'', Some ''6c'',
      Some ''7a'', Some ''7b'', Some ''7c'',
      None, None, None,
      Some ''8a'', Some ''8b'', Some ''8c'',
      Some ''Farewell'', None, None]"

text \<open>
  The variables the loops of \<^verbatim>\<open>parse_areas\<close> accumulate into (lines 107-110). The
  prefix \<open>cur_\<close> keeps them apart from the fields of \<open>SaveFile\<close> they end up in.
  The state of the loops is the pair of \<^verbatim>\<open>area_names\<close>, the list that \<^verbatim>\<open>pop\<close>
  shortens, and these variables.
\<close>

record locals =
  cur_total_deaths :: int
  cur_total_time :: int
  cur_areas :: "AreaStats list"
  cur_game_completed :: bool

definition init_locals :: locals where
  "init_locals = \<lparr>cur_total_deaths = 0, cur_total_time = 0, cur_areas = [], cur_game_completed = False\<rparr>"

subsection \<open>The loops\<close>

text \<open>
  The body of the innermost loop (lines 116-130) for one \<^verbatim>\<open>area_stats\<close> element:
  the name is popped first; \<open>None\<close> continues with nothing else read; otherwise the
  three attributes are read in the order of the source, each of which may raise.
\<close>

definition area_stats_body :: "string option list \<times> locals \<Rightarrow> element \<Rightarrow> py_error + string option list \<times> locals" where
  "area_stats_body st area_stats =
     (case st of (area_names, vs) \<Rightarrow>
     (case pop area_names of
        Inl e \<Rightarrow> Inl e
      | Inr (area_name, area_names) \<Rightarrow>
          (case area_name of
             None \<Rightarrow> Inr (area_names, vs)
           | Some nm \<Rightarrow>
               (case attrib_getitem (attrib area_stats) ''Completed'' of
                  Inl e \<Rightarrow> Inl e
                | Inr c \<Rightarrow>
               (case attrib_getitem (attrib area_stats) ''TimePlayed'' of
                  Inl e \<Rightarrow> Inl e
                | Inr t \<Rightarrow>
               (case py_int t of
                  Inl e \<Rightarrow> Inl e
                | Inr time_played' \<Rightarrow>
               (case attrib_getitem (attrib area_stats) ''Deaths'' of
                  Inl e \<Rightarrow> Inl e
                | Inr d \<Rightarrow>
               (case py_int d of
                  Inl e \<Rightarrow> Inl e
                | Inr deaths' \<Rightarrow>
                    (let completed' = (c = ''true'');
                         vs = (if completed'
                               then (if nm = ''Farewell'' then vs\<lparr>cur_game_completed := True\<rparr> else vs)
                               else vs);
                         vs = vs\<lparr>cur_areas := cur_areas vs @
                                 [\<lparr>name = nm, completed = completed',
                                   time_played = time_played', deaths = deaths'\<rparr>]\<rparr>;
                         vs = vs\<lparr>cur_total_time := cur_total_time vs + time_played'\<rparr>;
                         vs = vs\<lparr>cur_total_deaths := cur_total_deaths vs + deaths'\<rparr>
                     in Inr (area_names, vs))))))))))"

text \<open>\<^verbatim>\<open>for area_stats in area[0]\<close> (line 115), over the children of \<^verbatim>\<open>area[0]\<close>.\<close>

fun for_area_stats :: "string option list \<times> locals \<Rightarrow> element list \<Rightarrow> py_error + string option list \<times> locals" where
  "for_area_stats st [] = Inr st"
| "for_area_stats st (area_stats # rest) =
     (case area_stats_body st area_stats of
        Inl e \<Rightarrow> Inl e
      | Inr st' \<Rightarrow> for_area_stats st' rest)"

text \<open>
  \<^verbatim>\<open>for area in child\<close> (line 114). \<^verbatim>\<open>area[0]\<close> is the first child element of
  \<^verbatim>\<open>area\<close> and raises \<^verbatim>\<open>IndexError\<close> when there is none.
\<close>

fun for_area :: "string option list \<times> locals \<Rightarrow> element list \<Rightarrow> py_error + string option list \<times> locals" where
  "for_area st [] = Inr st"
| "for_area st (area # rest) =
     (case getitem (children area) 0 of
        Inl e \<Rightarrow> Inl e
      | Inr area0 \<Rightarrow>
          (case for_area_stats st (children area0) of
             Inl e \<Rightarrow> Inl e
           | Inr st' \<Rightarrow> for_area st' rest))"

text \<open>
  \<^verbatim>\<open>for child in root\<close> (lines 112-131): the first child tagged \<^verbatim>\<open>Areas\<close> is
  processed and the loop is left by \<^verbatim>\<open>break\<close>; other children are skipped.
\<close>

fun for_child :: "string option list \<times> locals \<Rightarrow> element list \<Rightarrow> py_error + string option list \<times> locals" where
  "for_child st [] = Inr st"
| "for_child st (child # rest) =
     (if tag child = ''Areas'' then for_area st (children child)
      else for_child st rest)"

text \<open>
  \<^verbatim>\<open>parse_areas\<close> (lines 95-133). \<^verbatim>\<open>all_saves[save_id]\<close> is evaluated when the outer
  loop starts and may raise.
\<close>

definition parse_areas :: "element list \<Rightarrow> int \<Rightarrow> py_error + SaveFile" where
  "parse_areas all_saves save_id =
     (case getitem all_saves save_id of
        Inl e \<Rightarrow> Inl e
      | Inr root \<Rightarrow>
          (case for_child (rev catalog, init_locals) (children root) of
             Inl e \<Rightarrow> Inl e
           | Inr (area_names, vs) \<Rightarrow>
               Inr \<lparr>id' = save_id, game_completed = cur_game_completed vs,
                    total_time = cur_total_time vs, total_deaths = cur_total_deaths vs,
                    areas = cur_areas vs\<rparr>))"

subsection \<open>The reimplementation with an explicit catalog index\<close>

text \<open>
  The design note of the specification: the catalog is a read-only table, and the
  position of the next name is an index threaded through the loops; stats entry \<open>i\<close>
  (counting every entry processed, from 0) reads \<^verbatim>\<open>catalog[i]\<close>, which raises
  \<^verbatim>\<open>IndexError\<close> past the end. Everything else is as in \<^verbatim>\<open>parse_areas\<close>.
\<close>

definition area_stats_body_indexed :: "nat \<times> locals \<Rightarrow> element \<Rightarrow> py_error + nat \<times> locals" where
  "area_stats_body_indexed st area_stats =
     (case st of (i, vs) \<Rightarrow>
     (case getitem catalog (int i) of
        Inl e \<Rightarrow> Inl e
      | Inr area_name \<Rightarrow>
          (case area_name of
             None \<Rightarrow> Inr (i + 1, vs)
           | Some nm \<Rightarrow>
               (case attrib_getitem (attrib area_stats) ''Completed'' of
                  Inl e \<Rightarrow> Inl e
                | Inr c \<Rightarrow>
               (case attrib_getitem (attrib area_stats) ''TimePlayed'' of
                  Inl e \<Rightarrow> Inl e
                | Inr t \<Rightarrow>
               (case py_int t of
                  Inl e \<Rightarrow> Inl e
                | Inr time_played' \<Rightarrow>
               (case attrib_getitem (attrib area_stats) ''Deaths'' of
                  Inl e \<Rightarrow> Inl e
                | Inr d \<Rightarrow>
               (case py_int d of
                  Inl e \<Rightarrow> Inl e
                | Inr deaths' \<Rightarrow>
                    Inr (i + 1,
                         \<lparr>cur_total_deaths = cur_total_deaths vs + deaths',
                          cur_total_time = cur_total_time vs + time_played',
                          cur_areas = cur_areas vs @
                            [\<lparr>name = nm, completed = (c = ''true''),
                              time_played = time_played', deaths = deaths'\<rparr>],
                          cur_game_completed =
                            (cur_game_completed vs \<or> (c = ''true'' \<and> nm = ''Farewell''))\<rparr>)))))))))"

fun for_area_stats_indexed :: "nat \<times> locals \<Rightarrow> element list \<Rightarrow> py_error + nat \<times> locals" where
  "for_area_stats_indexed st [] = Inr st"
| "for_area_stats_indexed st (area_stats # rest) =
     (case area_stats_body_indexed st area_stats of
        Inl e \<Rightarrow> Inl e
      | Inr st' \<Rightarrow> for_area_stats_indexed st' rest)"

fun for_area_indexed :: "nat \<times> locals \<Rightarrow> element list \<Rightarrow> py_error + nat \<times> locals" where
  "for_area_indexed st [] = Inr st"
| "for_area_indexed st (area # rest) =
     (case getitem (children area) 0 of
        Inl e \<Rightarrow> Inl e
      | Inr area0 \<Rightarrow>
          (case for_area_stats_indexed st (children area0) of
             Inl e \<Rightarrow> Inl e
           | Inr st' \<Rightarrow> for_area_indexed st' rest))"

fun for_child_indexed :: "nat \<times> locals \<Rightarrow> element list \<Rightarrow> py_error + nat \<times> locals" where
  "for_child_indexed st [] = Inr st"
| "for_child_indexed st (child # rest) =
     (if tag child = ''Areas'' then for_area_indexed st (children child)
      else for_child_indexed st rest)"

definition parse_areas_indexed :: "element list \<Rightarrow> int \<Rightarrow> py_error + SaveFile" where
  "parse_areas_indexed all_saves save_id =
     (case getitem all_saves save_id of
        Inl e \<Rightarrow> Inl e
      | Inr root \<Rightarrow>
          (case for_child_indexed (0, init_locals) (children root) of
             Inl e \<Rightarrow> Inl e
           | Inr (i, vs) \<Rightarrow>
               Inr \<lparr>id' = save_id, game_completed = cur_game_completed vs,
                    total_time = cur_total_time vs, total_deaths = cur_total_deaths vs,
                    areas = cur_areas vs\<rparr>))"

section \<open>ComparisonBuilder: the rows of \<^verbatim>\<open>generate_results\<close>\<close>

text \<open>
  A row is a dictionary with six keys; a value under \<^verbatim>\<open>result_a\<close>,
  \<^verbatim>\<open>result_b\<close> and \<^verbatim>\<open>diff\<close> is a string (a formatted time, or the
  placeholder) or an integer (a number of deaths). The key \<^verbatim>\<open>chapter\<close> is the field
  \<open>chapter_label\<close> (\<open>chapter\<close> is a keyword of the theory language) and the key
  \<^verbatim>\<open>diff\<close> the field \<open>diff_cell\<close>; the local variables \<^verbatim>\<open>result_a\<close> and
  \<^verbatim>\<open>result_b\<close> of lines 172-173 are \<open>res_a\<close> and \<open>res_b\<close>, apart from the fields.
\<close>

datatype cell = Text string | Number int

record row =
  chapter_label :: string
  result_a :: cell
  result_b :: cell
  diff_cell :: cell
  a_is_better :: bool
  b_is_better :: bool

text \<open>
  \<^verbatim>\<open>x or y\<close> and the truth value of \<^verbatim>\<open>x\<close>, for \<^verbatim>\<open>x\<close> that is \<^verbatim>\<open>None\<close> or
  a string: \<^verbatim>\<open>None\<close> and the empty string are false.
\<close>

definition truthy :: "string option \<Rightarrow> bool" where
  "truthy x = (case x of None \<Rightarrow> False | Some s \<Rightarrow> s \<noteq> [])"

definition py_or :: "string option \<Rightarrow> cell \<Rightarrow> cell" where
  "py_or x y = (case x of None \<Rightarrow> y | Some s \<Rightarrow> if s = [] then y else Text s)"

text \<open>
  The loop of lines 150-170 over \<^verbatim>\<open>zip(save_a.areas, save_b.areas)\<close>, appending to
  \<^verbatim>\<open>time_rows\<close> and \<^verbatim>\<open>death_rows\<close>.
\<close>

fun for_area_pair :: "row list \<times> row list \<Rightarrow> (AreaStats \<times> AreaStats) list \<Rightarrow> row list \<times> row list" where
  "for_area_pair (time_rows, death_rows) [] = (time_rows, death_rows)"
| "for_area_pair (time_rows, death_rows) ((area_a, area_b) # rest) =
     (if \<not> (completed area_a \<and> completed area_b)
      then for_area_pair (time_rows, death_rows) rest
      else for_area_pair
        (time_rows @
           [\<lparr>chapter_label = name area_a,
             result_a = Text (parse_time (time_played area_a)),
             result_b = Text (parse_time (time_played area_b)),
             diff_cell = Text (find_diff (time_played area_a) (time_played area_b)),
             a_is_better = (time_played area_a < time_played area_b),
             b_is_better = (time_played area_a > time_played area_b)\<rparr>],
         death_rows @
           [\<lparr>chapter_label = name area_a,
             result_a = Number (deaths area_a),
             result_b = Number (deaths area_b),
             diff_cell = Number (deaths area_a - deaths area_b),
             a_is_better = (deaths area_a < deaths area_b),
             b_is_better = (deaths area_a > deaths area_b)\<rparr>])
        rest)"

text \<open>
  Lines 148-192 of \<^verbatim>\<open>generate_results\<close>: the pair
  (\<^verbatim>\<open>time_rows\<close>, \<^verbatim>\<open>death_rows\<close>) handed to the template. Loading the template,
  rendering, writing the file and opening the browser are input and output and are not
  modelled.
\<close>

definition generate_results_rows :: "SaveFile \<Rightarrow> SaveFile \<Rightarrow> row list \<times> row list" where
  "generate_results_rows save_a save_b =
     (case for_area_pair ([], []) (zip (areas save_a) (areas save_b)) of
        (time_rows, death_rows) \<Rightarrow>
          (let res_a = (if game_completed save_a then None else Some ''-'');
               res_b = (if game_completed save_b then None else Some ''-'');
               diff = (if game_completed save_a \<and> game_completed save_b then None else Some ''-'');
               time_rows = time_rows @
                 [\<lparr>chapter_label = ''TOTAL TIME'',
                   result_a = py_or res_a (Text (parse_time (total_time save_a))),
                   result_b = py_or res_b (Text (parse_time (total_time save_b))),
                   diff_cell = py_or diff (Text (find_diff (total_time save_a) (total_time save_b))),
                   a_is_better = (if truthy diff then False else total_time save_a < total_time save_b),
                   b_is_better = (if truthy diff then False else total_time save_a > total_time save_b)\<rparr>];
               death_rows = death_rows @
                 [\<lparr>chapter_label = ''TOTAL DEATHS'',
                   result_a = py_or res_a (Number (total_deaths save_a)),
                   result_b = py_or res_b (Number (total_deaths save_b)),
                   diff_cell = py_or diff (Number (total_deaths save_a - total_deaths save_b)),
                   a_is_better = (if truthy diff then False else total_deaths save_a < total_deaths save_b),
                   b_is_better = (if truthy diff then False else total_deaths save_a > total_deaths save_b)\<rparr>]
           in (time_rows, death_rows)))"

section \<open>Notions used to state the properties\<close>

subsection \<open>Digits\<close>

text \<open>
  A number below 100 as exactly two decimal digits, a number below 1000 as exactly three,
  and a number below 100 without padding.
\<close>

definition two_digits :: "int \<Rightarrow> string" where
  "two_digits n = [digit_char (nat (n div 10)), digit_char (nat (n mod 10))]"

definition three_digits :: "int \<Rightarrow> string" where
  "three_digits n = [digit_char (nat (n div 100)), digit_char (nat (n div 10 mod 10)), digit_char (nat (n mod 10))]"

definition unpadded :: "int \<Rightarrow> string" where
  "unpadded n = (if n < 10 then [digit_char (nat n)] else two_digits n)"

subsection \<open>Rows\<close>

text \<open>
  A pair of areas that yields a row, the two rows of lines 154-170 for such a pair, and
  the two totals rows of lines 176-192 with the placeholders resolved.
\<close>

definition both_completed :: "AreaStats \<times> AreaStats \<Rightarrow> bool" where
  "both_completed p = (completed (fst p) \<and> completed (snd p))"

definition time_row :: "AreaStats \<times> AreaStats \<Rightarrow> row" where
  "time_row p =
     \<lparr>chapter_label = name (fst p),
      result_a = Text (parse_time (time_played (fst p))),
      result_b = Text (parse_time (time_played (snd p))),
      diff_cell = Text (find_diff (time_played (fst p)) (time_played (snd p))),
      a_is_better = (time_played (fst p) < time_played (snd p)),
      b_is_better = (time_played (snd p) < time_played (fst p))\<rparr>"

definition death_row :: "AreaStats \<times> AreaStats \<Rightarrow> row" where
  "death_row p =
     \<lparr>chapter_label = name (fst p),
      result_a = Number (deaths (fst p)),
      result_b = Number (deaths (snd p)),
      diff_cell = Number (deaths (fst p) - deaths (snd p)),
      a_is_better = (deaths (fst p) < deaths (snd p)),
      b_is_better = (deaths (snd p) < deaths (fst p))\<rparr>"

definition total_time_row :: "SaveFile \<Rightarrow> SaveFile \<Rightarrow> row" where
  "total_time_row save_a save_b =
     \<lparr>chapter_label = ''TOTAL TIME'',
      result_a = (if game_completed save_a then Text (parse_time (total_time save_a)) else Text ''-''),
      result_b = (if game_completed save_b then Text (parse_time (total_time save_b)) else Text ''-''),
      diff_cell = (if game_completed save_a \<and> game_completed save_b
                   then Text (find_diff (total_time save_a) (total_time save_b)) else Text ''-''),
      a_is_better = (game_completed save_a \<and> game_completed save_b \<and> total_time save_a < total_time save_b),
      b_is_better = (game_completed save_a \<and> game_completed save_b \<and> total_time save_b < total_time save_a)\<rparr>"

definition total_deaths_row :: "SaveFile \<Rightarrow> SaveFile \<Rightarrow> row" where
  "total_deaths_row save_a save_b =
     \<lparr>chapter_label = ''TOTAL DEATHS'',
      result_a = (if game_completed save_a then Number (total_deaths save_a) else Text ''-''),
      result_b = (if game_completed save_b then Number (total_deaths save_b) else Text ''-''),
      diff_cell = (if game_completed save_a \<and> game_completed save_b
                   then Number (total_deaths save_a - total_deaths save_b) else Text ''-''),
      a_is_better = (game_completed save_a \<and> game_completed save_b \<and> total_deaths save_a < total_deaths save_b),
      b_is_better = (game_completed save_a \<and> game_completed save_b \<and> total_deaths save_b < total_deaths save_a)\<rparr>"

subsection \<open>The stats entries a save is scored on, and their pairing with the catalog\<close>

text \<open>
  The elements the innermost loop visits when nothing raises, in the order it visits
  them: the children of the first child of every area entry of the first
  \<^verbatim>\<open>Areas\<close> container.
\<close>

definition first_mode_stats :: "element \<Rightarrow> element list" where
  "first_mode_stats area = (case children area of [] \<Rightarrow> [] | area0 # _ \<Rightarrow> children area0)"

definition area_entries :: "element \<Rightarrow> element list" where
  "area_entries root = (case find (\<lambda>child. tag child = ''Areas'') (children root) of
                          None \<Rightarrow> [] | Some child \<Rightarrow> children child)"

definition scored_entries :: "element \<Rightarrow> element list" where
  "scored_entries root = concat (map first_mode_stats (area_entries root))"

text \<open>
  What lines 120-122 and 128 make of one stats element under the name \<open>nm\<close>: the
  \<^verbatim>\<open>AreaStats\<close>, or the exception of the first attribute that cannot be read.
\<close>

definition read_stats :: "string \<Rightarrow> element \<Rightarrow> py_error + AreaStats" where
  "read_stats nm area_stats =
     (case attrib_getitem (attrib area_stats) ''Completed'' of
        Inl e \<Rightarrow> Inl e
      | Inr c \<Rightarrow>
     (case attrib_getitem (attrib area_stats) ''TimePlayed'' of
        Inl e \<Rightarrow> Inl e
      | Inr t \<Rightarrow>
     (case py_int t of
        Inl e \<Rightarrow> Inl e
      | Inr time_played' \<Rightarrow>
     (case attrib_getitem (attrib area_stats) ''Deaths'' of
        Inl e \<Rightarrow> Inl e
      | Inr d \<Rightarrow>
     (case py_int d of
        Inl e \<Rightarrow> Inl e
      | Inr deaths' \<Rightarrow>
          Inr \<lparr>name = nm, completed = (c = ''true''),
               time_played = time_played', deaths = deaths'\<rparr>)))))"

text \<open>
  Positional pairing of catalog slots with stats entries: the stats read for every
  entry whose slot holds a name, in order. \<open>paired_stats catalog es\<close> pairs entry \<open>i\<close>
  with slot \<open>i\<close>; \<open>paired_stats (rev catalog) es\<close> pairs entry \<open>i\<close> with slot
  \<open>33 - 1 - i\<close>.
\<close>

definition paired_stats :: "string option list \<Rightarrow> element list \<Rightarrow> (py_error + AreaStats) list" where
  "paired_stats slots es = [read_stats nm e. (Some nm, e) \<leftarrow> zip slots es]"

text \<open>Two area entries whose first children are the same.\<close>

definition same_first_mode :: "element \<Rightarrow> element \<Rightarrow> bool" where
  "same_first_mode a b = (take 1 (children a) = take 1 (children b))"

text \<open>
  An area entry cut down to its first child, and a save in which every area entry of
  every \<^verbatim>\<open>Areas\<close> container is cut down so.
\<close>

definition first_mode_only :: "element \<Rightarrow> element" where
  "first_mode_only area = Element (tag area) (attrib area) (take 1 (children area))"

definition drop_later_modes :: "element \<Rightarrow> element" where
  "drop_later_modes root =
     Element (tag root) (attrib root)
       (map (\<lambda>child. if tag child = ''Areas''
                      then Element (tag child) (attrib child) (map first_mode_only (children child))
                      else child)
            (children root))"

text \<open>
  The state of the loops of \<^verbatim>\<open>parse_areas\<close> that corresponds to a state of the indexed
  loops: the names not yet read, reversed.
\<close>

definition names_from :: "nat \<times> locals \<Rightarrow> string option list \<times> locals" where
  "names_from st = (rev (drop (fst st) catalog), snd st)"

text \<open>
  What lines 124-130 do with the stats of one scored entry: the \<^verbatim>\<open>AreaStats\<close> is
  appended, its time and deaths are added to the totals, and the game counts as
  completed once a completed \<^verbatim>\<open>Farewell\<close> has been seen.
\<close>

definition add_area :: "locals \<Rightarrow> AreaStats \<Rightarrow> locals" where
  "add_area vs a =
     \<lparr>cur_total_deaths = cur_total_deaths vs + deaths a,
      cur_total_time = cur_total_time vs + time_played a,
      cur_areas = cur_areas vs @ [a],
      cur_game_completed = (cur_game_completed vs \<or> (completed a \<and> name a = ''Farewell''))\<rparr>"

definition farewell_done :: "AreaStats \<Rightarrow> bool" where
  "farewell_done a = (completed a \<and> name a = ''Farewell'')"

definition farewell_entry :: "string option \<times> element \<Rightarrow> bool" where
  "farewell_entry p = (fst p = Some ''Farewell'' \<and> map_of (attrib (snd p)) ''Completed'' = Some ''true'')"

subsection \<open>Example saves\<close>

text \<open>
  Two saves of three chapters: all completed in the first; in the second, which is not
  completed as a game, chapter \<^verbatim>\<open>3b\<close> is not completed.
\<close>

definition example_a :: SaveFile where
  "example_a = \<lparr>id' = 0, game_completed = True, total_time = 900000000, total_deaths = 30,
     areas = [\<lparr>name = ''3a'', completed = True, time_played = 100000000, deaths = 4\<rparr>,
              \<lparr>name = ''3b'', completed = True, time_played = 300000000, deaths = 20\<rparr>,
              \<lparr>name = ''3c'', completed = True, time_played = 500000000, deaths = 6\<rparr>]\<rparr>"

definition example_b :: SaveFile where
  "example_b = \<lparr>id' = 1, game_completed = False, total_time = 800000000, total_deaths = 41,
     areas = [\<lparr>name = ''3a'', completed = True, time_played = 200000000, deaths = 4\<rparr>,
              \<lparr>name = ''3b'', completed = False, time_played = 100000000, deaths = 30\<rparr>,
              \<lparr>name = ''3c'', completed = True, time_played = 500000000, deaths = 7\<rparr>]\<rparr>"

text \<open>
  Example saves. A stats element with the three attributes; an area entry with its
  modes as first child and anything else after it; a save whose \<^verbatim>\<open>Areas\<close> container
  holds 11 area entries of three stats elements each, all completed, where the
  \<open>i\<close>-th of the 33 stats elements has \<open>i\<close> deaths.
\<close>

definition stats_elem :: "string \<Rightarrow> string \<Rightarrow> string \<Rightarrow> element" where
  "stats_elem c t d =
     Element ''AreaModeStats'' [(''Completed'', c), (''TimePlayed'', t), (''Deaths'', d)] []"

definition area_elem :: "element list \<Rightarrow> element list \<Rightarrow> element" where
  "area_elem modes others = Element ''AreaStats'' [] (Element ''Modes'' [] modes # others)"

definition numbered_area :: "nat \<Rightarrow> element" where
  "numbered_area k =
     area_elem (map (\<lambda>i. stats_elem ''true'' ''10000'' (py_str (int i))) [3 * k, 3 * k + 1, 3 * k + 2]) []"

definition full_save :: element where
  "full_save = Element ''SaveData'' [] [Element ''Name'' [] [], Element ''Areas'' [] (map numbered_area [0..<11])]"

definition small_save :: element where
  "small_save =
     Element ''SaveData'' []
       [Element ''Name'' [] [],
        Element ''Areas'' []
          [area_elem [stats_elem ''true'' ''650000000'' ''7'',
                      stats_elem ''true'' ''nonsense'' ''nonsense'',
                      Element ''AreaModeStats'' [] []]
                     [Element ''Extra'' [] [stats_elem ''true'' ''1'' ''1'']],
           area_elem [stats_elem ''false'' '' 1_000 '' ''+3'']
                     [Element ''Extra'' [] [stats_elem ''true'' ''1'' ''1'', stats_elem ''true'' ''1'' ''1'']]],
        Element ''Areas'' [] [area_elem [stats_elem ''true'' ''5'' ''5''] []]]"

text \<open>
  A save like \<open>full_save\<close> whose \<^verbatim>\<open>Farewell\<close> entry (the one with 30 deaths) is not
  completed.
\<close>

definition unfinished_area :: "nat \<Rightarrow> element" where
  "unfinished_area k =
     area_elem (map (\<lambda>i. stats_elem (if i = 30 then ''false'' else ''true'') ''10000'' (py_str (int i)))
                    [3 * k, 3 * k + 1, 3 * k + 2]) []"

definition unfinished_save :: element where
  "unfinished_save = Element ''SaveData'' [] [Element ''Areas'' [] (map unfinished_area [0..<11])]"

text \<open>A save without an \<^verbatim>\<open>Areas\<close> container: no entry is scored.\<close>

definition fresh_save :: element where
  "fresh_save = Element ''SaveData'' [] [Element ''Name'' [] [], Element ''Time'' [] []]"

section \<open>Properties of the TimeCodec\<close>

subsection \<open>Decimal digits\<close>

lemma digits_of_lt10: "n < 10 \<Longrightarrow> digits_of n = [digit_char n]"
  by (subst digits_of.simps) simp

lemma digits_of_lt100: "10 \<le> n \<Longrightarrow> n < 100 \<Longrightarrow> digits_of n = [digit_char (n div 10), digit_char (n mod 10)]"
  by (subst digits_of.simps) (simp add: digits_of_lt10)

lemma digits_of_lt1000: "100 \<le> n \<Longrightarrow> n < 1000 \<Longrightarrow>
  digits_of n = [digit_char (n div 100), digit_char (n div 10 mod 10), digit_char (n mod 10)]"
proof -
  assume a: "100 \<le> n" "n < 1000"
  have "n div 10 div 10 = n div (10 * 10)" by (simp only: div_mult2_eq)
  then have "n div 10 div 10 = n div 100" by simp
  with a show ?thesis by (subst digits_of.simps) (simp add: digits_of_lt100)
qed

lemma digit_char_0: "digit_char 0 = CHR ''0''"
  by (simp add: digit_char_def)

lemma py_format_02d: "0 \<le> n \<Longrightarrow> n < 100 \<Longrightarrow> py_format_0d 2 n = two_digits n"
proof -
  assume a: "0 \<le> n" "n < 100"
  show ?thesis
  proof (cases "n < 10")
    case True
    with a have "digits_of (nat n) = [digit_char (nat n)]" by (simp add: digits_of_lt10)
    moreover from True a have "n div 10 = 0" "n mod 10 = n" by simp_all
    ultimately show ?thesis using a
      by (simp add: py_format_0d_def two_digits_def digit_char_0 numeral_2_eq_2)
  next
    case False
    with a have "digits_of (nat n) = [digit_char (nat n div 10), digit_char (nat n mod 10)]"
      by (simp add: digits_of_lt100)
    then show ?thesis using a
      by (simp add: py_format_0d_def two_digits_def nat_div_distrib nat_mod_distrib)
  qed
qed

lemma py_format_03d: "0 \<le> n \<Longrightarrow> n < 1000 \<Longrightarrow> py_format_0d 3 n = three_digits n"
proof -
  assume a: "0 \<le> n" "n < 1000"
  consider "n < 10" | "10 \<le> n" "n < 100" | "100 \<le> n" by linarith
  then show ?thesis
  proof cases
    case 1
    with a have "digits_of (nat n) = [digit_char (nat n)]" by (simp add: digits_of_lt10)
    moreover from 1 a have "n div 100 = 0" "n div 10 = 0" "n mod 10 = n" by simp_all
    ultimately show ?thesis using a
      by (simp add: py_format_0d_def three_digits_def digit_char_0 numeral_2_eq_2)
  next
    case 2
    with a have "digits_of (nat n) = [digit_char (nat n div 10), digit_char (nat n mod 10)]"
      by (simp add: digits_of_lt100)
    moreover from 2 a have "n div 100 = 0" "n div 10 mod 10 = n div 10" by simp_all
    ultimately show ?thesis using a
      by (simp add: py_format_0d_def three_digits_def digit_char_0 nat_div_distrib nat_mod_distrib)
  next
    case 3
    with a have "digits_of (nat n) = [digit_char (nat n div 100), digit_char (nat n div 10 mod 10), digit_char (nat n mod 10)]"
      by (simp add: digits_of_lt1000)
    then show ?thesis using a
      by (simp add: py_format_0d_def three_digits_def nat_div_distrib nat_mod_distrib)
  qed
qed

lemma py_str_unpadded: "0 \<le> n \<Longrightarrow> n < 100 \<Longrightarrow> py_str n = unpadded n"
proof -
  assume a: "0 \<le> n" "n < 100"
  show ?thesis
  proof (cases "n < 10")
    case True
    with a show ?thesis by (simp add: py_str_def unpadded_def digits_of_lt10)
  next
    case False
    with a have "digits_of (nat n) = [digit_char (nat n div 10), digit_char (nat n mod 10)]"
      by (simp add: digits_of_lt100)
    then show ?thesis using a False
      by (simp add: py_str_def unpadded_def two_digits_def nat_div_distrib nat_mod_distrib)
  qed
qed

subsection \<open>The clock decomposition\<close>

lemma mod_div_nested: "0 < b \<Longrightarrow> 0 \<le> c \<Longrightarrow> (a mod (b * c)) div b = a div b mod (c::int)"
proof -
  assume b: "0 < b" and c: "0 \<le> c"
  have "a mod (b * c) = b * (a div b mod c) + a mod b"
    using c by (rule zmod_zmult2_eq)
  then have "(a mod (b * c)) div b = (a mod b + b * (a div b mod c)) div b"
    by (simp add: add.commute)
  also have "\<dots> = a div b mod c"
    using b by simp
  finally show ?thesis .
qed

lemma clock_mins: "(ms mod 3600000) div 60000 = ms div 60000 mod (60::int)"
  using mod_div_nested [of 60000 60 ms] by simp

lemma clock_rem: "ms mod 3600000 mod 60000 = ms mod (60000::int)"
  by (rule mod_mod_cancel) simp

lemma clock_secs: "(ms mod 3600000 mod 60000) div 1000 = ms div 1000 mod (60::int)"
  using mod_div_nested [of 1000 60 ms] by (simp add: clock_rem)

lemma clock_ms: "(ms mod 3600000 mod 60000) mod 1000 = ms mod (1000::int)"
proof -
  have "ms mod 60000 mod 1000 = ms mod (1000::int)" by (rule mod_mod_cancel) simp
  then show ?thesis by (simp add: clock_rem)
qed

lemma assemble_clock:
  assumes "0 \<le> mi" "mi < 60" "0 \<le> s" "s < 60" "0 \<le> k" "k < 1000"
  shows "concat
           (((if 0 < h then ([] @ [py_str h @ '':'']) @ [py_format_0d 2 mi @ '':'']
              else if 0 < mi then [] @ [py_str mi @ '':''] else []) @
             [if 0 < h \<or> 0 < mi then py_format_0d 2 s @ ''.'' else py_str s @ ''.'']) @
            [py_format_0d 3 k]) =
         (if 0 < h
          then py_str h @ '':'' @ two_digits mi @ '':'' @ two_digits s @ ''.'' @ three_digits k
          else if 0 < mi
          then unpadded mi @ '':'' @ two_digits s @ ''.'' @ three_digits k
          else unpadded s @ ''.'' @ three_digits k)"
  using assms by (simp add: py_format_02d py_format_03d py_str_unpadded)

lemma parse_time_format_aux:
  "parse_time raw =
     (let total_ms = raw div 10000;
          hours = total_ms div 3600000;
          minutes = total_ms div 60000 mod 60;
          seconds = total_ms div 1000 mod 60;
          millis = total_ms mod 1000
      in if hours > 0
         then py_str hours @ '':'' @ two_digits minutes @ '':'' @ two_digits seconds @ ''.'' @ three_digits millis
         else if minutes > 0
         then unpadded minutes @ '':'' @ two_digits seconds @ ''.'' @ three_digits millis
         else unpadded seconds @ ''.'' @ three_digits millis)"
  unfolding parse_time_def Let_def clock_mins clock_secs clock_ms
  by (rule assemble_clock) simp_all

lemma digit_char_is_digit: "d < 10 \<Longrightarrow> digit_char d \<in> set ''0123456789''"
  unfolding digit_char_def by (rule nth_mem) simp

lemma digits_of_nonempty: "digits_of n \<noteq> []"
  by (subst digits_of.simps) simp

lemma hd_digits_of: "hd (digits_of n) \<in> set ''0123456789''"
proof (induction n rule: digits_of.induct)
  case (1 n)
  show ?case
  proof (cases "n < 10")
    case True
    then show ?thesis using digit_char_is_digit [of n] by (simp add: digits_of_lt10)
  next
    case False
    then have "hd (digits_of n) = hd (digits_of (n div 10))"
      by (subst digits_of.simps) (simp add: digits_of_nonempty)
    with False 1 show ?thesis by simp
  qed
qed

lemma hd_two_digits: "0 \<le> x \<Longrightarrow> x < 100 \<Longrightarrow> hd (two_digits x) \<in> set ''0123456789''"
  using digit_char_is_digit [of "nat (x div 10)"] by (simp add: two_digits_def)

lemma hd_unpadded: "0 \<le> x \<Longrightarrow> x < 100 \<Longrightarrow> hd (unpadded x) \<in> set ''0123456789''"
  using digit_char_is_digit [of "nat x"] hd_two_digits [of x] by (simp add: unpadded_def)

lemma hd_append_digit: "xs \<noteq> [] \<Longrightarrow> hd xs \<in> set ''0123456789'' \<Longrightarrow> hd (xs @ ys) \<noteq> CHR ''-''"
  by auto

lemma unpadded_nonempty: "unpadded x \<noteq> []"
  by (simp add: unpadded_def two_digits_def)

lemma hd_clock:
  assumes "0 \<le> h" "0 \<le> mi" "mi < 60" "0 \<le> s" "s < 60"
  shows "hd (if 0 < h
          then py_str h @ '':'' @ two_digits mi @ '':'' @ two_digits s @ ''.'' @ three_digits k
          else if 0 < mi
          then unpadded mi @ '':'' @ two_digits s @ ''.'' @ three_digits k
          else unpadded s @ ''.'' @ three_digits k) \<noteq> CHR ''-''"
proof -
  have "py_str h = digits_of (nat h)"
    using assms(1) by (simp add: py_str_def)
  then have "hd (py_str h @ r) \<noteq> CHR ''-''" for r
    by (simp only:) (intro hd_append_digit digits_of_nonempty hd_digits_of)
  moreover have "hd (unpadded mi @ r) \<noteq> CHR ''-''" for r
    using assms by (intro hd_append_digit unpadded_nonempty hd_unpadded) simp_all
  moreover have "hd (unpadded s @ r) \<noteq> CHR ''-''" for r
    using assms by (intro hd_append_digit unpadded_nonempty hd_unpadded) simp_all
  ultimately show ?thesis by simp
qed

lemma parse_time_no_sign: "0 \<le> t \<Longrightarrow> hd (parse_time t) \<noteq> CHR ''-''"
proof -
  assume "0 \<le> t"
  then have "0 \<le> t div 10000 div 3600000"
    by (simp add: pos_imp_zdiv_nonneg_iff)
  then show ?thesis
    unfolding parse_time_format_aux Let_def
    by (rule hd_clock) simp_all
qed

subsection \<open>\<^verbatim>\<open>str\<close> writes the decimal numeral that \<^verbatim>\<open>int\<close> reads\<close>

text \<open>
  The digits written for a number are decimal digits, have the number as their value,
  start with no zero unless the number is zero, and \<^verbatim>\<open>int(str(i))\<close> is \<open>i\<close>.
\<close>

lemma digit_char_props: "d < 10 \<Longrightarrow> is_digit (digit_char d) \<and> digit_val (digit_char d) = int d \<and> \<not> py_isspace (digit_char d)"
proof -
  assume "d < 10"
  then have "d \<in> {0, 1, 2, 3, 4, 5, 6, 7, 8, 9}" by auto
  then show ?thesis
    by (auto simp: digit_char_def is_digit_def digit_val_def py_isspace_def)
qed

lemma digits_of_all_digits: "list_all is_digit (digits_of n)"
proof (induction n rule: digits_of.induct)
  case (1 n)
  show ?case
  proof (cases "n < 10")
    case True
    then show ?thesis using digit_char_props [of n] by (simp add: digits_of_lt10)
  next
    case False
    then have "digits_of n = digits_of (n div 10) @ [digit_char (n mod 10)]"
      by (subst digits_of.simps) simp
    with False 1 digit_char_props [of "n mod 10"] show ?thesis by simp
  qed
qed

lemma int_digits_all_digits:
  "list_all is_digit xs \<Longrightarrow> xs \<noteq> [] \<or> b \<Longrightarrow>
   int_digits b acc xs = Inr (foldl (\<lambda>v c. 10 * v + digit_val c) acc xs)"
  by (induction xs arbitrary: b acc) simp_all

lemma digits_of_value: "foldl (\<lambda>v c. 10 * v + digit_val c) 0 (digits_of n) = int n"
proof (induction n rule: digits_of.induct)
  case (1 n)
  show ?case
  proof (cases "n < 10")
    case True
    then show ?thesis using digit_char_props [of n] by (simp add: digits_of_lt10)
  next
    case False
    then have "digits_of n = digits_of (n div 10) @ [digit_char (n mod 10)]"
      by (subst digits_of.simps) simp
    with False 1 digit_char_props [of "n mod 10"] show ?thesis
      by (simp add: zdiv_int zmod_int)
  qed
qed

lemma digits_of_no_leading_zero: "0 < n \<Longrightarrow> hd (digits_of n) \<noteq> CHR ''0''"
proof (induction n rule: digits_of.induct)
  case (1 n)
  show ?case
  proof (cases "n < 10")
    case True
    with "1.prems" have "n \<in> {1, 2, 3, 4, 5, 6, 7, 8, 9}" by auto
    then show ?thesis using True by (auto simp: digits_of_lt10 digit_char_def)
  next
    case False
    then have "hd (digits_of n) = hd (digits_of (n div 10))"
      by (subst digits_of.simps) (simp add: digits_of_nonempty)
    with False 1 show ?thesis by simp
  qed
qed

lemma strip_digits: "list_all is_digit xs \<Longrightarrow> strip xs = xs"
proof -
  assume a: "list_all is_digit xs"
  have ns: "\<not> py_isspace c" if "is_digit c" for c
    using that by (auto simp: is_digit_def py_isspace_def)
  have "dropWhile py_isspace ys = ys" if "list_all is_digit ys" for ys
    using that ns by (cases ys) simp_all
  with a show ?thesis by (simp add: strip_def)
qed

lemma py_int_digits_of: "py_int (digits_of n) = Inr (int n)"
proof -
  obtain c cs where cs: "digits_of n = c # cs"
    using digits_of_nonempty [of n] by (cases "digits_of n") simp_all
  with digits_of_all_digits [of n] have "is_digit c" by simp
  then have "c \<noteq> CHR ''-''" "c \<noteq> CHR ''+''" by (auto simp: is_digit_def)
  moreover have "int_digits False 0 (digits_of n) = Inr (int n)"
    using int_digits_all_digits [OF digits_of_all_digits, of n False 0] digits_of_nonempty [of n]
    by (simp add: digits_of_value)
  ultimately show ?thesis
    using strip_digits [OF digits_of_all_digits, of n] by (simp add: py_int_def cs)
qed

lemma py_int_py_str: "py_int (py_str i) = Inr i"
proof (cases "i < 0")
  case False
  then show ?thesis by (simp add: py_str_def py_int_digits_of)
next
  case True
  have d: "list_all is_digit (digits_of (nat (- i)))" by (rule digits_of_all_digits)
  have ns: "\<not> py_isspace CHR ''-''" by (simp add: py_isspace_def)
  have "rev (digits_of (nat (- i))) \<noteq> []" by (simp add: digits_of_nonempty)
  then obtain c cs where r: "rev (digits_of (nat (- i))) = c # cs" by (cases "rev (digits_of (nat (- i)))") simp_all
  then have "c \<in> set (digits_of (nat (- i)))" by (metis list.set_intros(1) set_rev)
  with d have "is_digit c" by (simp add: list_all_iff)
  then have "\<not> py_isspace c" by (auto simp: is_digit_def py_isspace_def)
  with r ns have "strip (CHR ''-'' # digits_of (nat (- i))) = CHR ''-'' # digits_of (nat (- i))"
    by (simp add: strip_def)
  moreover have "int_digits False 0 (digits_of (nat (- i))) = Inr (int (nat (- i)))"
    using int_digits_all_digits [OF d, of False 0] digits_of_nonempty [of "nat (- i)"]
    by (simp add: digits_of_value)
  ultimately show ?thesis using True by (simp add: py_str_def py_int_def)
qed

subsection \<open>The format of a time, and of a difference\<close>

text \<open>
  Claim C4. For a raw time \<open>raw \<ge> 0\<close>, \<^verbatim>\<open>parse_time\<close> takes \<open>raw div 10000\<close> as
  milliseconds, splits them into hours, minutes (0-59), seconds (0-59) and milliseconds
  (0-999), and renders \<^verbatim>\<open>H:MM:SS.mmm\<close> when the hours are positive (minutes and seconds
  as two digits, milliseconds as three), \<^verbatim>\<open>M:SS.mmm\<close> when the hours are zero and the
  minutes positive (minutes unpadded), and \<^verbatim>\<open>S.mmm\<close> otherwise (seconds unpadded). The
  hours are written by \<open>py_str\<close>, the decimal numeral without leading zeros. The
  three fixtures: 0 gives \<^verbatim>\<open>0.000\<close>, 65 seconds give \<^verbatim>\<open>1:05.000\<close>, and 1 hour 2 minutes
  3 seconds give \<^verbatim>\<open>1:02:03.000\<close>.
\<close>

theorem parse_time_format:
  "(0 \<le> raw \<longrightarrow>
      parse_time raw =
       (let total_ms = raw div 10000;
            hours = total_ms div 3600000;
            minutes = total_ms div 60000 mod 60;
            seconds = total_ms div 1000 mod 60;
            millis = total_ms mod 1000
        in if hours > 0
           then py_str hours @ '':'' @ two_digits minutes @ '':'' @ two_digits seconds @ ''.'' @ three_digits millis
           else if minutes > 0
           then unpadded minutes @ '':'' @ two_digits seconds @ ''.'' @ three_digits millis
           else unpadded seconds @ ''.'' @ three_digits millis)) \<and>
   parse_time 0 = ''0.000'' \<and>
   parse_time 650000000 = ''1:05.000'' \<and>
   parse_time 37230000000 = ''1:02:03.000''"
proof -
  have "parse_time 0 = ''0.000''"
    by (simp add: parse_time_format_aux unpadded_def three_digits_def digit_char_def)
  moreover have "parse_time 650000000 = ''1:05.000''"
    by (simp add: parse_time_format_aux unpadded_def two_digits_def three_digits_def digit_char_def)
  moreover have "parse_time 37230000000 = ''1:02:03.000''"
    by (simp add: parse_time_format_aux py_str_def digits_of_lt10 two_digits_def three_digits_def digit_char_def)
  ultimately show ?thesis
    using parse_time_format_aux [of raw] by simp
qed

theorem parse_time_format_witness:
  "(0::int) \<le> 36610010000 \<and> parse_time 36610010000 = ''1:01:01.001''"
  using parse_time_format [of 36610010000]
  by (simp add: py_str_def digits_of_lt10 two_digits_def three_digits_def digit_char_def)

text \<open>
  Claim C5. \<^verbatim>\<open>find_diff\<close> returns the formatted absolute difference of the two times,
  after a minus sign exactly when \<open>time_a < time_b\<close>; without the sign,
  \<^verbatim>\<open>find_diff(a, b)\<close> and \<^verbatim>\<open>find_diff(b, a)\<close> are the same string. The formatted
  difference never starts with a minus sign itself, so the first character is one if and
  only if \<open>time_a < time_b\<close>. This holds for all integers, in particular for the
  non-negative ones.
\<close>

theorem find_diff_spec:
  "find_diff time_a time_b = (if time_a < time_b then ''-'' else []) @ parse_time \<bar>time_a - time_b\<bar> \<and>
   find_diff time_b time_a = (if time_b < time_a then ''-'' else []) @ parse_time \<bar>time_a - time_b\<bar> \<and>
   (hd (find_diff time_a time_b) = CHR ''-'') = (time_a < time_b)"
proof -
  have d: "find_diff a b = (if a < b then ''-'' else []) @ parse_time \<bar>a - b\<bar>" for a b
    by (simp add: find_diff_def Let_def max_def min_def abs_if)
  have "\<bar>time_b - time_a\<bar> = \<bar>time_a - time_b\<bar>" by simp
  with d [of time_b time_a] have d': "find_diff time_b time_a =
      (if time_b < time_a then ''-'' else []) @ parse_time \<bar>time_a - time_b\<bar>"
    by simp
  have n: "hd (parse_time \<bar>time_a - time_b\<bar>) \<noteq> CHR ''-''"
    by (rule parse_time_no_sign) simp
  have "(hd (find_diff time_a time_b) = CHR ''-'') = (time_a < time_b)"
  proof (cases "time_a < time_b")
    case True
    then show ?thesis by (simp add: d)
  next
    case False
    with n show ?thesis by (simp add: d)
  qed
  with d d' show ?thesis by simp
qed

theorem find_diff_spec_witness:
  "find_diff 5000 3000 = ''0.000'' \<and> find_diff 30000000 50000000 = ''-2.000'' \<and>
   find_diff 50000000 30000000 = ''2.000''"
  using find_diff_spec [of 5000 3000] find_diff_spec [of 30000000 50000000]
  by (simp add: parse_time_format_aux unpadded_def three_digits_def digit_char_def)

section \<open>Properties of the ComparisonBuilder\<close>

lemma for_area_pair_rows:
  "for_area_pair (time_rows, death_rows) ps =
     (time_rows @ map time_row (filter both_completed ps),
      death_rows @ map death_row (filter both_completed ps))"
proof (induction ps arbitrary: time_rows death_rows)
  case Nil
  show ?case by simp
next
  case (Cons p ps)
  obtain area_a area_b where p: "p = (area_a, area_b)" by (cases p)
  show ?case
    unfolding p by (simp add: Cons.IH both_completed_def time_row_def death_row_def)
qed

lemma py_or_placeholder: "py_or (if done then None else Some ''-'') y = (if done then y else Text ''-'')"
  by (simp add: py_or_def)

lemma truthy_placeholder: "truthy (if done then None else Some ''-'') = (\<not> done)"
  by (simp add: truthy_def)

lemma generate_results_rows_eq:
  "generate_results_rows save_a save_b =
     (map time_row (filter both_completed (zip (areas save_a) (areas save_b))) @ [total_time_row save_a save_b],
      map death_row (filter both_completed (zip (areas save_a) (areas save_b))) @ [total_deaths_row save_a save_b])"
  unfolding generate_results_rows_def for_area_pair_rows Let_def py_or_placeholder truthy_placeholder
  by (auto simp: total_time_row_def total_deaths_row_def)

lemma zip_all_completed:
  "length xs = length ys \<Longrightarrow> list_all completed xs \<Longrightarrow> list_all completed ys \<Longrightarrow>
   filter both_completed (zip xs ys) = zip xs ys \<and> map (name \<circ> fst) (zip xs ys) = map name xs"
  by (induction xs ys rule: list_induct2) (simp_all add: both_completed_def)

lemma row_labels:
  "map chapter_label (map time_row qs) = map (name \<circ> fst) qs"
  "map chapter_label (map death_row qs) = map (name \<circ> fst) qs"
  by (simp_all add: time_row_def death_row_def)

text \<open>
  Claim C6. The two lists of areas are paired by position; a pair yields a row in
  \<^verbatim>\<open>time_rows\<close> and a row in \<^verbatim>\<open>death_rows\<close>, labelled with the name on side A,
  exactly when both areas are completed, and the other pairs yield nothing: before their
  last row (the totals), both sequences carry the labels of the completed pairs, in
  order. Nothing in the computation can raise. Two saves of three chapters, all
  completed, give four rows in each sequence: the three chapters in order, then the
  totals.
\<close>
theorem per_chapter_rows:
  "map chapter_label (butlast (fst (generate_results_rows save_a save_b))) =
     map (name \<circ> fst) (filter both_completed (zip (areas save_a) (areas save_b))) \<and>
   map chapter_label (butlast (snd (generate_results_rows save_a save_b))) =
     map (name \<circ> fst) (filter both_completed (zip (areas save_a) (areas save_b))) \<and>
   (length (areas save_a) = 3 \<and> length (areas save_b) = 3 \<and>
    list_all completed (areas save_a) \<and> list_all completed (areas save_b) \<longrightarrow>
      map chapter_label (fst (generate_results_rows save_a save_b)) = map name (areas save_a) @ [''TOTAL TIME''] \<and>
      map chapter_label (snd (generate_results_rows save_a save_b)) = map name (areas save_a) @ [''TOTAL DEATHS''] \<and>
      length (fst (generate_results_rows save_a save_b)) = 4 \<and>
      length (snd (generate_results_rows save_a save_b)) = 4)"
proof -
  let ?ps = "zip (areas save_a) (areas save_b)"
  have "map chapter_label (butlast (fst (generate_results_rows save_a save_b))) =
          map (name \<circ> fst) (filter both_completed ?ps)"
       "map chapter_label (butlast (snd (generate_results_rows save_a save_b))) =
          map (name \<circ> fst) (filter both_completed ?ps)"
    by (simp_all add: generate_results_rows_eq row_labels del: map_map)
  moreover have "map chapter_label (fst (generate_results_rows save_a save_b)) = map name (areas save_a) @ [''TOTAL TIME''] \<and>
      map chapter_label (snd (generate_results_rows save_a save_b)) = map name (areas save_a) @ [''TOTAL DEATHS''] \<and>
      length (fst (generate_results_rows save_a save_b)) = 4 \<and>
      length (snd (generate_results_rows save_a save_b)) = 4"
    if h: "length (areas save_a) = 3" "length (areas save_b) = 3"
       "list_all completed (areas save_a)" "list_all completed (areas save_b)"
  proof -
    from h have "filter both_completed ?ps = ?ps \<and> map (name \<circ> fst) ?ps = map name (areas save_a)"
      by (intro zip_all_completed) simp_all
    with h show ?thesis
      by (simp add: generate_results_rows_eq row_labels total_time_row_def total_deaths_row_def del: map_map)
  qed
  ultimately show ?thesis by blast
qed

theorem per_chapter_rows_witness:
  "length (areas example_a) = 3 \<and> list_all completed (areas example_a) \<and>
   map chapter_label (fst (generate_results_rows example_a example_a)) = [''3a'', ''3b'', ''3c'', ''TOTAL TIME''] \<and>
   map chapter_label (snd (generate_results_rows example_a example_a)) = [''3a'', ''3b'', ''3c'', ''TOTAL DEATHS''] \<and>
   completed (areas example_a ! 1) \<and> \<not> completed (areas example_b ! 1) \<and>
   map chapter_label (butlast (fst (generate_results_rows example_a example_b))) = [''3a'', ''3c''] \<and>
   map chapter_label (butlast (snd (generate_results_rows example_a example_b))) = [''3a'', ''3c'']"
  using per_chapter_rows [of example_a example_a] per_chapter_rows [of example_a example_b]
  by (simp add: example_a_def example_b_def both_completed_def)

text \<open>
  Claim C7. Each sequence is the rows of the loop followed by exactly one totals row,
  whatever the loop produced (so the length is the number of pairs completed on both
  sides plus one). In the totals row, a side whose \<^verbatim>\<open>game_completed\<close> is false shows
  the placeholder \<^verbatim>\<open>-\<close> and otherwise its total; the difference is the placeholder
  unless both sides are completed; and a side is better only when both are completed and
  its total is strictly smaller.
\<close>
theorem totals_row:
  "fst (generate_results_rows save_a save_b) =
     fst (for_area_pair ([], []) (zip (areas save_a) (areas save_b))) @
     [\<lparr>chapter_label = ''TOTAL TIME'',
       result_a = (if game_completed save_a then Text (parse_time (total_time save_a)) else Text ''-''),
       result_b = (if game_completed save_b then Text (parse_time (total_time save_b)) else Text ''-''),
       diff_cell = (if game_completed save_a \<and> game_completed save_b
                    then Text (find_diff (total_time save_a) (total_time save_b)) else Text ''-''),
       a_is_better = (game_completed save_a \<and> game_completed save_b \<and> total_time save_a < total_time save_b),
       b_is_better = (game_completed save_a \<and> game_completed save_b \<and> total_time save_b < total_time save_a)\<rparr>] \<and>
   snd (generate_results_rows save_a save_b) =
     snd (for_area_pair ([], []) (zip (areas save_a) (areas save_b))) @
     [\<lparr>chapter_label = ''TOTAL DEATHS'',
       result_a = (if game_completed save_a then Number (total_deaths save_a) else Text ''-''),
       result_b = (if game_completed save_b then Number (total_deaths save_b) else Text ''-''),
       diff_cell = (if game_completed save_a \<and> game_completed save_b
                    then Number (total_deaths save_a - total_deaths save_b) else Text ''-''),
       a_is_better = (game_completed save_a \<and> game_completed save_b \<and> total_deaths save_a < total_deaths save_b),
       b_is_better = (game_completed save_a \<and> game_completed save_b \<and> total_deaths save_b < total_deaths save_a)\<rparr>] \<and>
   length (fst (generate_results_rows save_a save_b)) =
     length (filter both_completed (zip (areas save_a) (areas save_b))) + 1 \<and>
   length (snd (generate_results_rows save_a save_b)) =
     length (filter both_completed (zip (areas save_a) (areas save_b))) + 1"
  by (simp add: generate_results_rows_eq for_area_pair_rows total_time_row_def total_deaths_row_def)

lemma parse_time_90s: "parse_time 900000000 = ''1:30.000''"
  by (simp add: parse_time_format_aux unpadded_def two_digits_def three_digits_def digit_char_def)

theorem totals_row_witness:
  "game_completed example_a \<and> \<not> game_completed example_b \<and>
   total_time example_a \<noteq> total_time example_b \<and>
   last (fst (generate_results_rows example_a example_b)) =
     \<lparr>chapter_label = ''TOTAL TIME'', result_a = Text ''1:30.000'', result_b = Text ''-'',
      diff_cell = Text ''-'', a_is_better = False, b_is_better = False\<rparr> \<and>
   last (snd (generate_results_rows example_a example_b)) =
     \<lparr>chapter_label = ''TOTAL DEATHS'', result_a = Number 30, result_b = Text ''-'',
      diff_cell = Text ''-'', a_is_better = False, b_is_better = False\<rparr> \<and>
   generate_results_rows (example_a\<lparr>areas := []\<rparr>) (example_a\<lparr>total_time := 0, total_deaths := 31\<rparr>) =
     ([\<lparr>chapter_label = ''TOTAL TIME'', result_a = Text ''1:30.000'', result_b = Text ''0.000'',
        diff_cell = Text ''1:30.000'', a_is_better = False, b_is_better = True\<rparr>],
      [\<lparr>chapter_label = ''TOTAL DEATHS'', result_a = Number 30, result_b = Number 31,
        diff_cell = Number (- 1), a_is_better = True, b_is_better = False\<rparr>])"
  using totals_row [of example_a example_b]
    totals_row [of "example_a\<lparr>areas := []\<rparr>" "example_a\<lparr>total_time := 0, total_deaths := 31\<rparr>"]
  by (simp add: example_a_def example_b_def prod_eq_iff find_diff_def parse_time_90s)
    (simp add: parse_time_format_aux unpadded_def three_digits_def digit_char_def)

section \<open>Properties of the SaveParser\<close>

subsection \<open>Popping from the reversed catalog is reading it forward\<close>

lemma pop_rev_drop:
  "pop (rev (drop i xs)) =
     (if i < length xs then Inr (xs ! i, rev (drop (Suc i) xs)) else Inl IndexError)"
proof (cases "i < length xs")
  case True
  then have "drop i xs = xs ! i # drop (Suc i) xs"
    by (simp add: Cons_nth_drop_Suc)
  then show ?thesis using True by (simp add: pop_def)
next
  case False
  then show ?thesis by (simp add: pop_def)
qed

lemma getitem_nat:
  "getitem xs (int i) = (if i < length xs then Inr (xs ! i) else Inl IndexError)"
  by (simp add: getitem_def)

lemma area_stats_body_sim:
  "area_stats_body (names_from st) e = map_sum id names_from (area_stats_body_indexed st e)"
proof -
  obtain i vs where st: "st = (i, vs)" by (cases st)
  show ?thesis
    unfolding st area_stats_body_def area_stats_body_indexed_def names_from_def
    by (simp add: pop_rev_drop getitem_nat Let_def split: option.split sum.split)
qed

lemma for_area_stats_sim:
  "for_area_stats (names_from st) es = map_sum id names_from (for_area_stats_indexed st es)"
proof (induction es arbitrary: st)
  case Nil
  show ?case by simp
next
  case (Cons e es)
  show ?case
  proof (cases "area_stats_body_indexed st e")
    case (Inl err)
    then show ?thesis by (simp add: area_stats_body_sim)
  next
    case (Inr st')
    then show ?thesis by (simp add: area_stats_body_sim Cons.IH)
  qed
qed

lemma for_area_sim:
  "for_area (names_from st) as = map_sum id names_from (for_area_indexed st as)"
proof (induction as arbitrary: st)
  case Nil
  show ?case by simp
next
  case (Cons a as)
  show ?case
  proof (cases "getitem (children a) 0")
    case (Inl err)
    then show ?thesis by simp
  next
    case area0: (Inr area0)
    show ?thesis
    proof (cases "for_area_stats_indexed st (children area0)")
      case (Inl err)
      with area0 show ?thesis by (simp add: for_area_stats_sim)
    next
      case (Inr st')
      with area0 show ?thesis by (simp add: for_area_stats_sim Cons.IH)
    qed
  qed
qed

lemma for_child_sim:
  "for_child (names_from st) cs = map_sum id names_from (for_child_indexed st cs)"
  by (induction cs) (simp_all add: for_area_sim id_def)

text \<open>
  Claim C3. Reading the catalog forward through an explicit index, entry \<open>i\<close> with
  \<^verbatim>\<open>catalog[i]\<close>, gives the same result as popping names off the reversed catalog: for
  every list of saves and every slot, the same \<^verbatim>\<open>SaveFile\<close> or the same exception.
\<close>
theorem parse_areas_indexed_eq:
  "parse_areas_indexed all_saves save_id = parse_areas all_saves save_id"
proof (cases "getitem all_saves save_id")
  case (Inl err)
  then show ?thesis by (simp add: parse_areas_def parse_areas_indexed_def)
next
  case (Inr root)
  have start: "(rev catalog, init_locals) = names_from (0, init_locals)"
    by (simp add: names_from_def)
  show ?thesis
    unfolding parse_areas_def parse_areas_indexed_def Inr start for_child_sim
    by (cases "for_child_indexed (0, init_locals) (children root)") (simp_all add: names_from_def split: prod.split)
qed

subsection \<open>What the loops compute when nothing raises\<close>

lemma paired_stats_simps:
  "paired_stats [] es = []"
  "paired_stats slots [] = []"
  "paired_stats (None # slots) (e # es) = paired_stats slots es"
  "paired_stats (Some nm # slots) (e # es) = read_stats nm e # paired_stats slots es"
  by (simp_all add: paired_stats_def)

lemma paired_stats_append:
  "paired_stats slots (es @ es') = paired_stats slots es @ paired_stats (drop (length es) slots) es'"
proof (induction es arbitrary: slots)
  case Nil
  show ?case by (simp add: paired_stats_simps)
next
  case (Cons e es)
  show ?case
  proof (cases slots)
    case Nil
    then show ?thesis by (simp add: paired_stats_simps)
  next
    case (Cons slot slots')
    then show ?thesis by (cases slot) (simp_all add: paired_stats_simps Cons.IH)
  qed
qed

lemma area_stats_body_indexed_eq:
  "area_stats_body_indexed (i, vs) e =
     (if i < length catalog
      then (case catalog ! i of
              None \<Rightarrow> Inr (Suc i, vs)
            | Some nm \<Rightarrow> (case read_stats nm e of
                             Inl err \<Rightarrow> Inl err
                           | Inr a \<Rightarrow> Inr (Suc i, add_area vs a)))
      else Inl IndexError)"
  by (simp add: area_stats_body_indexed_def getitem_nat read_stats_def add_area_def
           split: option.split sum.split)

lemma for_area_stats_indexed_Inr:
  "for_area_stats_indexed (i, vs) es = Inr (j, vs') \<Longrightarrow> i \<le> length catalog \<Longrightarrow>
   j = i + length es \<and> j \<le> length catalog \<and>
   (\<exists>new. paired_stats (drop i catalog) es = map Inr new \<and> vs' = foldl add_area vs new)"
proof (induction es arbitrary: i vs)
  case Nil
  then show ?case by (simp add: paired_stats_simps)
next
  case (Cons e es)
  from Cons.prems have i: "i < length catalog"
    by (simp add: area_stats_body_indexed_eq split: if_splits)
  then have i': "Suc i \<le> length catalog" by simp
  from i have d: "drop i catalog = catalog ! i # drop (Suc i) catalog"
    by (simp add: Cons_nth_drop_Suc)
  show ?case
  proof (cases "catalog ! i")
    case None
    with Cons.prems i have "for_area_stats_indexed (Suc i, vs) es = Inr (j, vs')"
      by (simp add: area_stats_body_indexed_eq)
    from Cons.IH [OF this i'] show ?thesis
      by (simp add: d None paired_stats_simps)
  next
    case (Some nm)
    with Cons.prems i obtain a where a: "read_stats nm e = Inr a"
      and run: "for_area_stats_indexed (Suc i, add_area vs a) es = Inr (j, vs')"
      by (auto simp: area_stats_body_indexed_eq split: sum.splits)
    from Cons.IH [OF run i'] obtain new where
      "j = Suc i + length es" "j \<le> length catalog"
      "paired_stats (drop (Suc i) catalog) es = map Inr new" "vs' = foldl add_area (add_area vs a) new"
      by auto
    then have "paired_stats (drop i catalog) (e # es) = map Inr (a # new) \<and> vs' = foldl add_area vs (a # new)"
      by (simp add: d Some paired_stats_simps a)
    then have "\<exists>new. paired_stats (drop i catalog) (e # es) = map Inr new \<and> vs' = foldl add_area vs new"
      by (rule exI)
    with \<open>j = Suc i + length es\<close> \<open>j \<le> length catalog\<close> show ?thesis by simp
  qed
qed

lemma getitem_0_Inr: "getitem xs 0 = Inr x \<Longrightarrow> \<exists>rest. xs = x # rest"
  by (cases xs) (simp_all add: getitem_def)

lemma for_area_indexed_Inr:
  "for_area_indexed (i, vs) as = Inr (j, vs') \<Longrightarrow> i \<le> length catalog \<Longrightarrow>
   j = i + length (concat (map first_mode_stats as)) \<and> j \<le> length catalog \<and>
   (\<exists>new. paired_stats (drop i catalog) (concat (map first_mode_stats as)) = map Inr new \<and>
          vs' = foldl add_area vs new)"
proof (induction as arbitrary: i vs)
  case Nil
  then show ?case by (simp add: paired_stats_simps)
next
  case (Cons a as)
  from Cons.prems obtain area0 k vs1 where
    area0: "getitem (children a) 0 = Inr area0"
    and inner: "for_area_stats_indexed (i, vs) (children area0) = Inr (k, vs1)"
    and rest: "for_area_indexed (k, vs1) as = Inr (j, vs')"
    by (auto split: sum.splits)
  from getitem_0_Inr [OF area0] have fm: "first_mode_stats a = children area0"
    by (auto simp: first_mode_stats_def)
  from for_area_stats_indexed_Inr [OF inner Cons.prems(2)] obtain new1 where
    k: "k = i + length (children area0)" "k \<le> length catalog"
    and new1: "paired_stats (drop i catalog) (children area0) = map Inr new1" "vs1 = foldl add_area vs new1"
    by auto
  from Cons.IH [OF rest k(2)] obtain new2 where
    j: "j = k + length (concat (map first_mode_stats as))" "j \<le> length catalog"
    and new2: "paired_stats (drop k catalog) (concat (map first_mode_stats as)) = map Inr new2"
      "vs' = foldl add_area vs1 new2"
    by auto
  have e2: "paired_stats (drop (length (children area0)) (drop i catalog))
              (concat (map first_mode_stats as)) = map Inr new2"
    using new2(1) by (simp add: k(1) add.commute)
  have "paired_stats (drop i catalog) (concat (map first_mode_stats (a # as))) = map Inr (new1 @ new2) \<and>
        vs' = foldl add_area vs (new1 @ new2)"
    by (simp add: fm paired_stats_append new1 new2(2) e2 del: drop_drop)
  then have "\<exists>new. paired_stats (drop i catalog) (concat (map first_mode_stats (a # as))) = map Inr new \<and>
        vs' = foldl add_area vs new"
    by (rule exI)
  with j k fm show ?case by simp
qed

lemma for_child_indexed_eq:
  "for_child_indexed st cs =
     (case find (\<lambda>child. tag child = ''Areas'') cs of
        None \<Rightarrow> Inr st
      | Some child \<Rightarrow> for_area_indexed st (children child))"
  by (induction cs) simp_all

lemma for_child_indexed_Inr:
  "for_child_indexed (i, vs) (children root) = Inr (j, vs') \<Longrightarrow> i \<le> length catalog \<Longrightarrow>
   j = i + length (scored_entries root) \<and> j \<le> length catalog \<and>
   (\<exists>new. paired_stats (drop i catalog) (scored_entries root) = map Inr new \<and>
          vs' = foldl add_area vs new)"
proof (cases "find (\<lambda>child. tag child = ''Areas'') (children root)")
  case None
  assume "for_child_indexed (i, vs) (children root) = Inr (j, vs')" "i \<le> length catalog"
  with None show ?thesis
    by (simp add: for_child_indexed_eq scored_entries_def area_entries_def paired_stats_simps)
next
  case (Some child)
  assume a: "for_child_indexed (i, vs) (children root) = Inr (j, vs')" "i \<le> length catalog"
  with Some have "for_area_indexed (i, vs) (children child) = Inr (j, vs')"
    by (simp add: for_child_indexed_eq)
  from for_area_indexed_Inr [OF this a(2)] Some show ?thesis
    by (simp add: scored_entries_def area_entries_def)
qed

lemma foldl_add_area:
  "cur_areas (foldl add_area vs new) = cur_areas vs @ new"
  "cur_total_time (foldl add_area vs new) = cur_total_time vs + sum_list (map time_played new)"
  "cur_total_deaths (foldl add_area vs new) = cur_total_deaths vs + sum_list (map deaths new)"
  "cur_game_completed (foldl add_area vs new) = (cur_game_completed vs \<or> list_ex farewell_done new)"
  by (induction new arbitrary: vs) (auto simp: add_area_def farewell_done_def)

lemma parse_areas_Inr:
  assumes "parse_areas all_saves save_id = Inr sf" and "getitem all_saves save_id = Inr root"
  shows "length (scored_entries root) \<le> length catalog \<and>
         paired_stats catalog (scored_entries root) = map Inr (areas sf) \<and>
         id' sf = save_id \<and>
         total_time sf = sum_list (map time_played (areas sf)) \<and>
         total_deaths sf = sum_list (map deaths (areas sf)) \<and>
         game_completed sf = list_ex farewell_done (areas sf)"
proof -
  have start: "(rev catalog, init_locals) = names_from (0, init_locals)"
    by (simp add: names_from_def)
  from assms obtain j vs where
    run: "for_child_indexed (0, init_locals) (children root) = Inr (j, vs)"
    and sf: "sf = \<lparr>id' = save_id, game_completed = cur_game_completed vs,
                  total_time = cur_total_time vs, total_deaths = cur_total_deaths vs,
                  areas = cur_areas vs\<rparr>"
    unfolding parse_areas_def start for_child_sim
    by (cases "for_child_indexed (0, init_locals) (children root)")
       (auto simp: names_from_def split: prod.splits)
  from for_child_indexed_Inr [OF run] obtain new where
    "j = length (scored_entries root)" "j \<le> length catalog"
    "paired_stats catalog (scored_entries root) = map Inr new" "vs = foldl add_area init_locals new"
    by auto
  then show ?thesis
    by (simp add: sf foldl_add_area init_locals_def)
qed

subsection \<open>The pairing of stats entries with catalog slots\<close>

lemma small_save_result:
  "parse_areas [small_save] 0 =
     Inr \<lparr>id' = 0, game_completed = False, total_time = 650001000, total_deaths = 10,
          areas = [\<lparr>name = ''Prologue'', completed = True, time_played = 650000000, deaths = 7\<rparr>,
                   \<lparr>name = ''1a'', completed = False, time_played = 1000, deaths = 3\<rparr>]\<rparr>"
  by code_simp

lemma paired_stats_nth:
  "i < length es \<Longrightarrow> i < length slots \<Longrightarrow> slots ! i = Some nm \<Longrightarrow>
   read_stats nm (es ! i) \<in> set (paired_stats slots es)"
proof -
  assume a: "i < length es" "i < length slots" "slots ! i = Some nm"
  then have "zip slots es ! i = (Some nm, es ! i)" "i < length (zip slots es)"
    by simp_all
  then have "(Some nm, es ! i) \<in> set (zip slots es)"
    by (metis nth_mem)
  then show ?thesis
    by (force simp: paired_stats_def)
qed

text \<open>
  Claim C1, as the code has it. The claim reads the pairing as reversed: the last raw
  stats entry with the first catalog slot, entry \<open>i\<close> with slot \<open>33 - 1 - i\<close>. The
  code reverses the catalog only so that \<^verbatim>\<open>pop\<close>, which takes from the end, yields the
  slots in the order they are written, and so the pairing is forward: stats entry \<open>i\<close>
  (in document order, counting from 0) is paired with catalog slot \<open>i\<close>. For every save
  that parses, the areas of the result are exactly the stats read from the entries whose
  slot holds a name, each under the name of its slot, in order; at most 33 entries are
  scored; and the stats of every entry \<open>i\<close> whose slot \<open>i\<close> holds a name are among the
  areas.
\<close>
theorem forward_pairing:
  assumes "parse_areas all_saves save_id = Inr sf" and "getitem all_saves save_id = Inr root"
  shows "length (scored_entries root) \<le> length catalog \<and>
         map Inr (areas sf) = paired_stats catalog (scored_entries root) \<and>
         (i < length (scored_entries root) \<and> catalog ! i = Some nm \<longrightarrow>
            read_stats nm (scored_entries root ! i) \<in> Inr ` set (areas sf))"
proof -
  from parse_areas_Inr [OF assms]
  have l: "length (scored_entries root) \<le> length catalog"
    and p: "paired_stats catalog (scored_entries root) = map Inr (areas sf)"
    by simp_all
  have "read_stats nm (scored_entries root ! i) \<in> Inr ` set (areas sf)"
    if "i < length (scored_entries root)" "catalog ! i = Some nm"
    using paired_stats_nth [of i "scored_entries root" catalog nm] that l p by simp
  with l p show ?thesis by simp
qed

theorem forward_pairing_witness:
  "parse_areas [small_save] 0 =
     Inr \<lparr>id' = 0, game_completed = False, total_time = 650001000, total_deaths = 10,
          areas = [\<lparr>name = ''Prologue'', completed = True, time_played = 650000000, deaths = 7\<rparr>,
                   \<lparr>name = ''1a'', completed = False, time_played = 1000, deaths = 3\<rparr>]\<rparr> \<and>
   getitem [small_save] 0 = Inr small_save \<and>
   length (scored_entries small_save) = 4 \<and>
   paired_stats catalog (scored_entries small_save) =
     [Inr \<lparr>name = ''Prologue'', completed = True, time_played = 650000000, deaths = 7\<rparr>,
      Inr \<lparr>name = ''1a'', completed = False, time_played = 1000, deaths = 3\<rparr>] \<and>
   catalog ! 3 = Some ''1a'' \<and>
   read_stats ''1a'' (scored_entries small_save ! 3) =
     Inr \<lparr>name = ''1a'', completed = False, time_played = 1000, deaths = 3\<rparr>"
proof -
  have g: "getitem [small_save] 0 = Inr small_save"
    by (simp add: getitem_def)
  have n: "length (scored_entries small_save) = 4" "catalog ! 3 = Some ''1a''"
    "read_stats ''1a'' (scored_entries small_save ! 3) =
       Inr \<lparr>name = ''1a'', completed = False, time_played = 1000, deaths = 3\<rparr>"
    by code_simp+
  from forward_pairing [OF small_save_result g, of 3 "''1a''"] small_save_result g n
  show ?thesis by simp
qed

text \<open>
  The reversed pairing fails on a save with 33 stats entries, where every reading of it
  pairs entry \<open>i\<close> with slot \<open>32 - i\<close>: the areas of the result are not those of the
  reversed pairing, and the first area, \<^verbatim>\<open>Prologue\<close>, carries the stats of the first
  entry (0 deaths), not those of the last (32 deaths).
\<close>

theorem reversed_pairing_counterexample:
  "\<not> isl (parse_areas [full_save] 0) \<and>
   length (scored_entries full_save) = 33 \<and>
   map Inr (areas (projr (parse_areas [full_save] 0))) \<noteq>
     paired_stats (rev catalog) (scored_entries full_save) \<and>
   hd (areas (projr (parse_areas [full_save] 0))) =
     \<lparr>name = ''Prologue'', completed = True, time_played = 10000, deaths = 0\<rparr> \<and>
   read_stats ''Prologue'' (hd (scored_entries full_save)) =
     Inr \<lparr>name = ''Prologue'', completed = True, time_played = 10000, deaths = 0\<rparr> \<and>
   read_stats ''Prologue'' (last (scored_entries full_save)) =
     Inr \<lparr>name = ''Prologue'', completed = True, time_played = 10000, deaths = 32\<rparr>"
  by code_simp

subsection \<open>Completion of the game\<close>

lemma read_stats_Inr:
  "read_stats nm e = Inr a \<Longrightarrow>
   name a = nm \<and> completed a = (map_of (attrib e) ''Completed'' = Some ''true'')"
  by (auto simp: read_stats_def attrib_getitem_def split: sum.splits option.splits)

lemma farewell_paired:
  "paired_stats slots es = map Inr new \<Longrightarrow>
   list_ex farewell_done new = list_ex farewell_entry (zip slots es)"
proof (induction slots es arbitrary: new rule: list_induct2')
  case 1
  then show ?case by (simp add: paired_stats_simps)
next
  case (2 slot slots)
  then show ?case by (simp add: paired_stats_simps)
next
  case (3 e es)
  then show ?case by (simp add: paired_stats_simps)
next
  case (4 slot slots e es)
  show ?case
  proof (cases slot)
    case None
    with 4 show ?thesis by (simp add: paired_stats_simps farewell_entry_def)
  next
    case (Some nm)
    with "4.prems" obtain a new' where new: "new = a # new'"
      and a: "read_stats nm e = Inr a" and rest: "paired_stats slots es = map Inr new'"
      by (auto simp: paired_stats_simps)
    from read_stats_Inr [OF a] have "farewell_done a = farewell_entry (slot, e)"
      by (auto simp: farewell_done_def farewell_entry_def Some)
    with "4.IH" [OF rest] show ?thesis by (simp add: new)
  qed
qed

text \<open>
  Claim C8. For every save that parses, \<^verbatim>\<open>game_completed\<close> is true if and only if
  some scored stats entry is paired with the catalog slot named \<^verbatim>\<open>Farewell\<close> and has
  the attribute \<^verbatim>\<open>Completed\<close> equal to \<^verbatim>\<open>true\<close>.
\<close>
theorem game_completed_iff:
  assumes "parse_areas all_saves save_id = Inr sf" and "getitem all_saves save_id = Inr root"
  shows "game_completed sf = list_ex farewell_entry (zip catalog (scored_entries root))"
proof -
  from parse_areas_Inr [OF assms]
  have "paired_stats catalog (scored_entries root) = map Inr (areas sf)"
    and "game_completed sf = list_ex farewell_done (areas sf)"
    by simp_all
  then show ?thesis by (simp add: farewell_paired)
qed

lemma full_save_completed:
  "parse_areas [full_save] 0 = Inr (projr (parse_areas [full_save] 0)) \<and>
   game_completed (projr (parse_areas [full_save] 0))"
  by code_simp

lemma unfinished_save_not_completed:
  "parse_areas [unfinished_save] 0 = Inr (projr (parse_areas [unfinished_save] 0)) \<and>
   \<not> game_completed (projr (parse_areas [unfinished_save] 0))"
  by code_simp

theorem game_completed_iff_witness:
  "getitem [full_save] 0 = Inr full_save \<and>
   parse_areas [full_save] 0 = Inr (projr (parse_areas [full_save] 0)) \<and>
   game_completed (projr (parse_areas [full_save] 0)) \<and>
   list_ex farewell_entry (zip catalog (scored_entries full_save)) \<and>
   getitem [unfinished_save] 0 = Inr unfinished_save \<and>
   parse_areas [unfinished_save] 0 = Inr (projr (parse_areas [unfinished_save] 0)) \<and>
   \<not> game_completed (projr (parse_areas [unfinished_save] 0)) \<and>
   \<not> list_ex farewell_entry (zip catalog (scored_entries unfinished_save))"
proof -
  have g: "getitem [full_save] 0 = Inr full_save" "getitem [unfinished_save] 0 = Inr unfinished_save"
    by (simp_all add: getitem_def)
  from full_save_completed have f: "parse_areas [full_save] 0 = Inr (projr (parse_areas [full_save] 0))" ..
  from unfinished_save_not_completed
  have u: "parse_areas [unfinished_save] 0 = Inr (projr (parse_areas [unfinished_save] 0))" ..
  from game_completed_iff [OF f g(1)] game_completed_iff [OF u g(2)]
    full_save_completed unfinished_save_not_completed g
  show ?thesis by simp
qed

subsection \<open>Placeholder slots\<close>

lemma area_stats_body_pops:
  "area_stats_body (names, vs) e = Inr (names', vs') \<Longrightarrow> names \<noteq> [] \<and> names' = butlast names"
  by (auto simp: area_stats_body_def pop_def Let_def split: sum.splits option.splits if_splits)

lemma for_area_stats_pops:
  "for_area_stats (names, vs) es = Inr (names', vs') \<Longrightarrow>
   length es \<le> length names \<and> names' = take (length names - length es) names"
proof (induction es arbitrary: names vs)
  case Nil
  then show ?case by simp
next
  case (Cons e es)
  from Cons.prems obtain names1 vs1 where
    b: "area_stats_body (names, vs) e = Inr (names1, vs1)"
    and r: "for_area_stats (names1, vs1) es = Inr (names', vs')"
    by (auto split: sum.splits)
  from area_stats_body_pops [OF b] have n: "names \<noteq> []" "names1 = butlast names"
    by simp_all
  from Cons.IH [OF r] have "length es \<le> length names1" "names' = take (length names1 - length es) names1"
    by simp_all
  with n show ?case
    by (cases names rule: rev_cases) (simp_all add: butlast_conv_take)
qed

lemma names_paired:
  "paired_stats slots es = map Inr new \<Longrightarrow>
   map name new = [nm. Some nm \<leftarrow> take (length es) slots]"
proof (induction slots es arbitrary: new rule: list_induct2')
  case 1
  then show ?case by (simp add: paired_stats_simps)
next
  case (2 slot slots)
  then show ?case by (simp add: paired_stats_simps)
next
  case (3 e es)
  then show ?case by (simp add: paired_stats_simps)
next
  case (4 slot slots e es)
  show ?case
  proof (cases slot)
    case None
    with 4 show ?thesis by (simp add: paired_stats_simps)
  next
    case (Some nm)
    with "4.prems" obtain a new' where new: "new = a # new'"
      and a: "read_stats nm e = Inr a" and rest: "paired_stats slots es = map Inr new'"
      by (auto simp: paired_stats_simps)
    from read_stats_Inr [OF a] "4.IH" [OF rest] show ?thesis
      by (simp add: new Some)
  qed
qed

lemma named_slots_in: "set [nm. Some nm \<leftarrow> take n slots] \<subseteq> {nm. Some nm \<in> set slots}"
  by (auto split: option.splits dest: in_set_takeD)

lemma no_named_slots: "list_all (\<lambda>slot. slot = None) slots \<Longrightarrow> [nm. Some nm \<leftarrow> slots] = []"
  by (induction slots) simp_all

text \<open>
  Claim C9. Every stats entry processed takes exactly one name off \<^verbatim>\<open>area_names\<close>,
  whatever the name is: after a run of the inner loop over \<open>es\<close> that does not raise, the
  last \<open>length es\<close> names are gone. For every save that parses, the names of the areas
  are the names in the first \<open>n\<close> catalog slots, \<open>n\<close> the number of scored entries, in
  order and with the placeholders left out (so placeholders use up entries and yield no
  area); every area carries a name of the catalog; the totals are the sums of
  \<^verbatim>\<open>time_played\<close> and \<^verbatim>\<open>deaths\<close> over the areas; and when all these slots are
  placeholders, there is no area and the totals are zero.
\<close>
theorem placeholder_slots:
  "(for_area_stats (names, vs) es = Inr (names', vs') \<longrightarrow>
      length es \<le> length names \<and> names' = take (length names - length es) names) \<and>
   (parse_areas all_saves save_id = Inr sf \<and> getitem all_saves save_id = Inr root \<longrightarrow>
      length (scored_entries root) \<le> length catalog \<and>
      map name (areas sf) = [nm. Some nm \<leftarrow> take (length (scored_entries root)) catalog] \<and>
      list_all (\<lambda>a. Some (name a) \<in> set catalog) (areas sf) \<and>
      total_time sf = sum_list (map time_played (areas sf)) \<and>
      total_deaths sf = sum_list (map deaths (areas sf)) \<and>
      (list_all (\<lambda>slot. slot = None) (take (length (scored_entries root)) catalog) \<longrightarrow>
         areas sf = [] \<and> total_time sf = 0 \<and> total_deaths sf = 0))"
proof -
  have "length (scored_entries root) \<le> length catalog \<and>
      map name (areas sf) = [nm. Some nm \<leftarrow> take (length (scored_entries root)) catalog] \<and>
      list_all (\<lambda>a. Some (name a) \<in> set catalog) (areas sf) \<and>
      total_time sf = sum_list (map time_played (areas sf)) \<and>
      total_deaths sf = sum_list (map deaths (areas sf)) \<and>
      (list_all (\<lambda>slot. slot = None) (take (length (scored_entries root)) catalog) \<longrightarrow>
         areas sf = [] \<and> total_time sf = 0 \<and> total_deaths sf = 0)"
    if h: "parse_areas all_saves save_id = Inr sf" "getitem all_saves save_id = Inr root"
  proof -
    from parse_areas_Inr [OF h]
    have l: "length (scored_entries root) \<le> length catalog"
      and p: "paired_stats catalog (scored_entries root) = map Inr (areas sf)"
      and t: "total_time sf = sum_list (map time_played (areas sf))"
             "total_deaths sf = sum_list (map deaths (areas sf))"
      by simp_all
    from names_paired [OF p]
    have n: "map name (areas sf) = [nm. Some nm \<leftarrow> take (length (scored_entries root)) catalog]" .
    have "set (map name (areas sf)) \<subseteq> {nm. Some nm \<in> set catalog}"
      unfolding n by (rule named_slots_in)
    then have a: "list_all (\<lambda>a. Some (name a) \<in> set catalog) (areas sf)"
      by (auto simp: list_all_iff)
    have "areas sf = [] \<and> total_time sf = 0 \<and> total_deaths sf = 0"
      if "list_all (\<lambda>slot. slot = None) (take (length (scored_entries root)) catalog)"
    proof -
      from n no_named_slots [OF that] have "map name (areas sf) = []" by simp
      then have "areas sf = []" by simp
      with t show ?thesis by simp
    qed
    with l n a t show ?thesis by blast
  qed
  with for_area_stats_pops [of names vs es names' vs'] show ?thesis by blast
qed

lemma fresh_save_result:
  "parse_areas [fresh_save] 0 =
     Inr \<lparr>id' = 0, game_completed = False, total_time = 0, total_deaths = 0, areas = []\<rparr>"
  by code_simp

theorem placeholder_slots_witness:
  "for_area_stats (rev catalog, init_locals) (scored_entries small_save) =
     Inr (take 29 (rev catalog), snd (projr (for_area_stats (rev catalog, init_locals) (scored_entries small_save)))) \<and>
   length (rev catalog) = 33 \<and> length (scored_entries small_save) = 4 \<and>
   parse_areas [small_save] 0 =
     Inr \<lparr>id' = 0, game_completed = False, total_time = 650001000, total_deaths = 10,
          areas = [\<lparr>name = ''Prologue'', completed = True, time_played = 650000000, deaths = 7\<rparr>,
                   \<lparr>name = ''1a'', completed = False, time_played = 1000, deaths = 3\<rparr>]\<rparr> \<and>
   getitem [small_save] 0 = Inr small_save \<and>
   take (length (scored_entries small_save)) catalog = [Some ''Prologue'', None, None, Some ''1a''] \<and>
   parse_areas [fresh_save] 0 =
     Inr \<lparr>id' = 0, game_completed = False, total_time = 0, total_deaths = 0, areas = []\<rparr> \<and>
   getitem [fresh_save] 0 = Inr fresh_save \<and>
   list_all (\<lambda>slot. slot = None) (take (length (scored_entries fresh_save)) catalog)"
proof -
  have g: "getitem [small_save] 0 = Inr small_save" "getitem [fresh_save] 0 = Inr fresh_save"
    by (simp_all add: getitem_def)
  have r: "for_area_stats (rev catalog, init_locals) (scored_entries small_save) =
     Inr (take 29 (rev catalog), snd (projr (for_area_stats (rev catalog, init_locals) (scored_entries small_save))))"
    by code_simp
  have n: "length (rev catalog) = 33" "length (scored_entries small_save) = 4"
    "take (length (scored_entries small_save)) catalog = [Some ''Prologue'', None, None, Some ''1a'']"
    "list_all (\<lambda>slot. slot = None) (take (length (scored_entries fresh_save)) catalog)"
    by code_simp+
  from placeholder_slots [of "rev catalog" init_locals "scored_entries small_save" "take 29 (rev catalog)"
      "snd (projr (for_area_stats (rev catalog, init_locals) (scored_entries small_save)))"
      "[small_save]" 0 _ small_save]
    placeholder_slots [of "[]" init_locals "[]" "[]" init_locals "[fresh_save]" 0 _ fresh_save]
    r n g small_save_result fresh_save_result
  show ?thesis by simp
qed

subsection \<open>Later modes of an area entry\<close>

lemma getitem_take_1: "getitem (take 1 xs) 0 = getitem xs 0"
  by (cases xs) (simp_all add: getitem_def)

lemma for_area_same_first_mode:
  "list_all2 same_first_mode as bs \<Longrightarrow> for_area st as = for_area st bs"
proof (induction as bs arbitrary: st rule: list_all2_induct)
  case Nil
  show ?case by simp
next
  case (Cons a as b bs)
  from Cons.hyps(1) have "getitem (children a) 0 = getitem (children b) 0"
    using getitem_take_1 [of "children a"] getitem_take_1 [of "children b"]
    by (simp add: same_first_mode_def)
  then show ?case by (simp add: Cons.IH split: sum.split)
qed

lemma first_mode_only_same: "list_all2 same_first_mode (map first_mode_only as) as"
  by (induction as) (simp_all add: same_first_mode_def first_mode_only_def)

lemma for_child_drop_later_modes:
  "for_child st (children (drop_later_modes root)) = for_child st (children root)"
proof -
  have "for_child st
          (map (\<lambda>child. if tag child = ''Areas''
                         then Element (tag child) (attrib child) (map first_mode_only (children child))
                         else child) cs) = for_child st cs" for cs
    by (induction cs) (simp_all add: for_area_same_first_mode [OF first_mode_only_same])
  then show ?thesis by (simp add: drop_later_modes_def)
qed

lemma getitem_map: "getitem (map f xs) i = map_sum id f (getitem xs i)"
  by (simp add: getitem_def Let_def)

text \<open>
  Claim C2. Of an area entry, only the first child is read. The loop over the area
  entries gives the same state, or raises the same exception, on any two lists of area
  entries whose first children agree; and cutting every area entry of a save down to its
  first child changes nothing in what \<^verbatim>\<open>parse_areas\<close> returns. So the stats under a later
  child take no name off the catalog, yield no area and add nothing to the totals.
\<close>
theorem later_modes_ignored:
  "(list_all2 same_first_mode as bs \<longrightarrow> for_area st as = for_area st bs) \<and>
   parse_areas (map drop_later_modes all_saves) save_id = parse_areas all_saves save_id"
proof -
  have "parse_areas (map drop_later_modes all_saves) save_id = parse_areas all_saves save_id"
    by (cases "getitem all_saves save_id")
       (simp_all add: parse_areas_def getitem_map for_child_drop_later_modes)
  then show ?thesis
    by (simp add: for_area_same_first_mode)
qed

lemma small_save_later_modes:
  "drop_later_modes small_save \<noteq> small_save \<and>
   list_all2 same_first_mode (area_entries small_save) (area_entries (drop_later_modes small_save))"
  by code_simp

theorem later_modes_ignored_witness:
  "drop_later_modes small_save \<noteq> small_save \<and>
   list_all2 same_first_mode (area_entries small_save) (area_entries (drop_later_modes small_save)) \<and>
   for_area (rev catalog, init_locals) (area_entries (drop_later_modes small_save)) =
     for_area (rev catalog, init_locals) (area_entries small_save) \<and>
   parse_areas [drop_later_modes small_save] 0 =
     Inr \<lparr>id' = 0, game_completed = False, total_time = 650001000, total_deaths = 10,
          areas = [\<lparr>name = ''Prologue'', completed = True, time_played = 650000000, deaths = 7\<rparr>,
                   \<lparr>name = ''1a'', completed = False, time_played = 1000, deaths = 3\<rparr>]\<rparr>"
  using later_modes_ignored [of "area_entries small_save" "area_entries (drop_later_modes small_save)"
      "(rev catalog, init_locals)" "[small_save]" 0]
    small_save_later_modes small_save_result
  by simp

subsection \<open>The slot index\<close>

text \<open>
  Claim C10, as the code has it. The slot is read by \<^verbatim>\<open>all_saves[save_id]\<close> with no
  check of its own, so Python's indexing decides: with \<open>n\<close> saves loaded, a slot
  \<open>save_id \<ge> n\<close> or \<open>save_id < - n\<close> raises \<^verbatim>\<open>IndexError\<close>, and a negative slot from
  \<open>- n\<close> to \<open>- 1\<close> reads the save at \<open>n + save_id\<close>; the result is that save's, under
  the negative id.
\<close>
theorem slot_out_of_range:
  "(save_id < - int (length all_saves) \<or> int (length all_saves) \<le> save_id \<longrightarrow>
      parse_areas all_saves save_id = Inl IndexError) \<and>
   (- int (length all_saves) \<le> save_id \<and> save_id < 0 \<longrightarrow>
      getitem all_saves save_id = Inr (all_saves ! nat (save_id + int (length all_saves))) \<and>
      parse_areas all_saves save_id =
        map_sum id (\<lambda>sf. sf\<lparr>id' := save_id\<rparr>) (parse_areas all_saves (save_id + int (length all_saves))))"
proof -
  have "parse_areas all_saves save_id = Inl IndexError"
    if "save_id < - int (length all_saves) \<or> int (length all_saves) \<le> save_id"
    using that by (auto simp: parse_areas_def getitem_def)
  moreover have "getitem all_saves save_id = Inr (all_saves ! nat (save_id + int (length all_saves))) \<and>
      parse_areas all_saves save_id =
        map_sum id (\<lambda>sf. sf\<lparr>id' := save_id\<rparr>) (parse_areas all_saves (save_id + int (length all_saves)))"
    if "- int (length all_saves) \<le> save_id \<and> save_id < 0"
    using that by (auto simp: parse_areas_def getitem_def split: sum.splits prod.splits)
  ultimately show ?thesis by blast
qed

text \<open>
  With one save loaded, the slot \<open>- 1\<close> is outside \<open>0..0\<close>, and it is not refused: the
  save at index 0 is parsed.
\<close>

theorem negative_slot_counterexample:
  "(- 1 :: int) < 0 \<and>
   parse_areas [small_save] (- 1) \<noteq> Inl IndexError \<and>
   parse_areas [small_save] (- 1) =
     Inr \<lparr>id' = - 1, game_completed = False, total_time = 650001000, total_deaths = 10,
          areas = [\<lparr>name = ''Prologue'', completed = True, time_played = 650000000, deaths = 7\<rparr>,
                   \<lparr>name = ''1a'', completed = False, time_played = 1000, deaths = 3\<rparr>]\<rparr>"
  by code_simp

theorem slot_out_of_range_witness:
  "parse_areas [small_save] 1 = Inl IndexError \<and>
   parse_areas [small_save] (- 2) = Inl IndexError \<and>
   parse_areas [small_save, fresh_save] (- 1) =
     Inr \<lparr>id' = - 1, game_completed = False, total_time = 0, total_deaths = 0, areas = []\<rparr>"
proof -
  have "parse_areas [small_save, fresh_save] 1 = 
     Inr \<lparr>id' = 1, game_completed = False, total_time = 0, total_deaths = 0, areas = []\<rparr>"
    by code_simp
  with slot_out_of_range [of 1 "[small_save]"] slot_out_of_range [of "- 2" "[small_save]"]
    slot_out_of_range [of "- 1" "[small_save, fresh_save]"]
  show ?thesis by simp
qed

end
